theory Spec2Isabelle
  imports Main
begin

section \<open>The relay server's data\<close>

text \<open>
  The model follows the multi-client relay server (\<^verbatim>\<open>src/unnamed/part_000\<close>). A
  connection object \<^verbatim>\<open>ws\<close> is compared by identity only, so a handle is a number.
\<close>

type_synonym handle = nat

text \<open>
  The result of \<^verbatim>\<open>JSON.parse\<close>. An object is the list of its properties, each key once;
  \<open>field\<close> is the property read \<^verbatim>\<open>v.k\<close> on a value that is neither \<^verbatim>\<open>null\<close> nor
  \<^verbatim>\<open>undefined\<close>: \<open>None\<close> is \<^verbatim>\<open>undefined\<close>. The handlers read the properties
  \<^verbatim>\<open>type\<close>, \<^verbatim>\<open>roomCode\<close> and \<^verbatim>\<open>payload\<close> only, which no string, number, boolean or
  array carries.
\<close>

datatype json =
    JNull
  | JBool bool
  | JNum int
  | JStr string
  | JArr "json list"
  | JObj "(string \<times> json) list"

fun field :: "string \<Rightarrow> json \<Rightarrow> json option" where
  "field k (JObj kvs) = map_of kvs k"
| "field k v = None"

definition PRANK_ROOM_CODE :: string where
  "PRANK_ROOM_CODE = ''PRANK_ROOM_XYZ123_SECRET''"

text \<open>A room: \<^verbatim>\<open>{ sender: null, clients: [] }\<close>.\<close>

record room =
  sender :: "handle option"
  clients :: "handle list"

text \<open>
  The closure variable \<^verbatim>\<open>clientInfo\<close> of a connection: \<^verbatim>\<open>{ type: 'sender', roomCode }\<close>
  or \<^verbatim>\<open>{ type: 'client', roomCode, ws }\<close>; the property \<^verbatim>\<open>ws\<close> is absent for a sender.
\<close>

datatype role = Sender | Client

record client_info =
  ci_type :: role
  ci_roomCode :: string
  ci_ws :: "handle option"

text \<open>
  The messages the server sends. Every constructor is one object literal of the source;
  the numbers are the ones the source puts in the message (the count, or inside the text).
  The two \<^verbatim>\<open>target_acquired\<close> messages differ in their text.
\<close>

datatype out_msg =
    ErrorMsg string
  | Pong
  | ClientCount nat
  | TargetAcquiredOnline nat
  | TargetAcquiredJoined nat
  | WaitingForTarget
  | Connected
  | PrankMessage json
  | PrankDelivered nat nat
  | SenderDisconnected
  | TargetUpdate nat
  | TargetLost


text \<open>
  The state of the process: the global \<^verbatim>\<open>rooms\<close> map, the \<^verbatim>\<open>clientInfo\<close> variable of
  every connection's closure (\<^verbatim>\<open>null\<close> is \<open>None\<close>), and the messages that were handed
  to the transport so far, oldest first, each with the connection it went to.
\<close>

record server =
  rooms :: "string \<rightharpoonup> room"
  clientInfo :: "handle \<Rightarrow> client_info option"
  sent :: "(handle \<times> out_msg) list"

definition init :: server where
  "init = \<lparr>rooms = Map.empty, clientInfo = (\<lambda>h. None), sent = []\<rparr>"

section \<open>Sending, and exceptions\<close>

text \<open>
  A statement either completes or throws; the mutations made before a throw stay.
  \<^verbatim>\<open>ws.send\<close> throws or not depending on the state of the socket, which does not change
  while one event handler runs: \<open>bad\<close> is the set of connections whose \<^verbatim>\<open>send\<close> throws
  during the event at hand.
\<close>

datatype status = Returned | Threw

definition send :: "handle set \<Rightarrow> handle \<Rightarrow> out_msg \<Rightarrow> server \<Rightarrow> status \<times> server" where
  "send bad ws m s =
     (if ws \<in> bad then (Threw, s) else (Returned, s\<lparr>sent := sent s @ [(ws, m)]\<rparr>))"

text \<open>Sequencing: what follows a statement runs only when the statement did not throw.\<close>

definition thenDo :: "status \<times> server \<Rightarrow> (server \<Rightarrow> status \<times> server) \<Rightarrow> status \<times> server" where
  "thenDo r f = (case r of (Returned, s) \<Rightarrow> f s | (Threw, s) \<Rightarrow> (Threw, s))"

section \<open>The handlers\<close>

definition broadcastClientCount :: "handle set \<Rightarrow> string \<Rightarrow> server \<Rightarrow> status \<times> server" where
  "broadcastClientCount bad roomCode s =
     (case rooms s roomCode of
        None \<Rightarrow> (Returned, s)
      | Some room \<Rightarrow>
          (case sender room of
             None \<Rightarrow> (Returned, s)
           | Some to \<Rightarrow> send bad to (ClientCount (length (clients room))) s))"

text \<open>
  \<^verbatim>\<open>if (!rooms.has(roomCode)) rooms.set(roomCode, { sender: null, clients: [] });
  const room = rooms.get(roomCode);\<close>
\<close>

definition getOrCreate :: "server \<Rightarrow> string \<Rightarrow> room" where
  "getOrCreate s roomCode =
     (case rooms s roomCode of
        None \<Rightarrow> \<lparr>sender = None, clients = []\<rparr>
      | Some room \<Rightarrow> room)"

definition handleSenderJoin :: "handle set \<Rightarrow> handle \<Rightarrow> json \<Rightarrow> server \<Rightarrow> status \<times> server" where
  "handleSenderJoin bad ws message s =
     (case field ''roomCode'' message of
        Some (JStr roomCode) \<Rightarrow>
          if roomCode \<noteq> PRANK_ROOM_CODE then send bad ws (ErrorMsg ''Invalid room code'') s
          else
            let room = (getOrCreate s roomCode)\<lparr>sender := Some ws\<rparr>;
                s1 = s\<lparr>rooms := (rooms s)(roomCode \<mapsto> room),
                       clientInfo := (clientInfo s)
                         (ws := Some \<lparr>ci_type = Sender, ci_roomCode = roomCode, ci_ws = None\<rparr>)\<rparr>
            in thenDo (broadcastClientCount bad roomCode s1)
                 (\<lambda>s2. if length (clients room) > 0
                        then send bad ws (TargetAcquiredOnline (length (clients room))) s2
                        else send bad ws WaitingForTarget s2)
      | _ \<Rightarrow> send bad ws (ErrorMsg ''Invalid room code'') s)"

definition handleClientJoin :: "handle set \<Rightarrow> handle \<Rightarrow> json \<Rightarrow> server \<Rightarrow> status \<times> server" where
  "handleClientJoin bad ws message s =
     (case field ''roomCode'' message of
        Some (JStr roomCode) \<Rightarrow>
          if roomCode \<noteq> PRANK_ROOM_CODE then send bad ws (ErrorMsg ''Invalid room code'') s
          else
            let room0 = getOrCreate s roomCode;
                room = room0\<lparr>clients := clients room0 @ [ws]\<rparr>;
                s1 = s\<lparr>rooms := (rooms s)(roomCode \<mapsto> room),
                       clientInfo := (clientInfo s)
                         (ws := Some \<lparr>ci_type = Client, ci_roomCode = roomCode, ci_ws = Some ws\<rparr>)\<rparr>
            in thenDo (send bad ws Connected s1)
                 (\<lambda>s2. thenDo (broadcastClientCount bad roomCode s2)
                   (\<lambda>s3. case sender room of
                            None \<Rightarrow> (Returned, s3)
                          | Some to \<Rightarrow>
                              send bad to (TargetAcquiredJoined (length (clients room))) s3))
      | _ \<Rightarrow> send bad ws (ErrorMsg ''Invalid room code'') s)"

text \<open>
  The \<^verbatim>\<open>forEach\<close> of \<^verbatim>\<open>handlePrankMessage\<close>: each \<^verbatim>\<open>send\<close> is in its own
  \<^verbatim>\<open>try\<close>, and \<^verbatim>\<open>deliveredCount++\<close> follows the \<^verbatim>\<open>send\<close> inside it.
\<close>

fun relayAll :: "handle set \<Rightarrow> json \<Rightarrow> handle list \<Rightarrow> nat \<Rightarrow> server \<Rightarrow> nat \<times> server" where
  "relayAll bad payload [] deliveredCount s = (deliveredCount, s)"
| "relayAll bad payload (client # rest) deliveredCount s =
     (case send bad client (PrankMessage payload) s of
        (Returned, s') \<Rightarrow> relayAll bad payload rest (deliveredCount + 1) s'
      | (Threw, s') \<Rightarrow> relayAll bad payload rest deliveredCount s')"

text \<open>
  The conversion of a parsed value to a string, as a template literal does it. It throws
  a \<^verbatim>\<open>TypeError\<close> exactly when no primitive is found: an object with an own property
  \<^verbatim>\<open>toString\<close> (a parsed value is never callable, and \<^verbatim>\<open>Object.prototype.valueOf\<close>
  returns the object itself), or an array one of whose elements does (\<^verbatim>\<open>join\<close> converts
  every element but \<^verbatim>\<open>null\<close>). \<open>stringifies\<close> says the conversion returns;
  \<^verbatim>\<open>undefined\<close> converts to a string as every primitive does.
\<close>

fun stringifies :: "json \<Rightarrow> bool" where
  "stringifies (JArr xs) = list_all stringifies xs"
| "stringifies (JObj kvs) = (map_of kvs ''toString'' = None)"
| "stringifies v = True"

definition toStringOk :: "json option \<Rightarrow> bool" where
  "toStringOk v = (case v of None \<Rightarrow> True | Some j \<Rightarrow> stringifies j)"

text \<open>
  The line that logs the broadcast evaluates the template literal
  \<^verbatim>\<open>${message.payload.type}\<close> before the loop. It throws a \<^verbatim>\<open>TypeError\<close> when
  \<^verbatim>\<open>message.payload\<close> is \<^verbatim>\<open>undefined\<close> or \<^verbatim>\<open>null\<close>, and when \<^verbatim>\<open>message.payload.type\<close>
  cannot be converted to a string. The receipt reads \<^verbatim>\<open>room.clients.length\<close> after the
  loop, from the room as it is then (\<open>room1\<close>; the room is still in the map, nothing in
  the loop removes it).
\<close>

definition handlePrankMessage :: "handle set \<Rightarrow> handle \<Rightarrow> json \<Rightarrow> server \<Rightarrow> status \<times> server" where
  "handlePrankMessage bad ws message s =
     (case clientInfo s ws of
        None \<Rightarrow> send bad ws (ErrorMsg ''Only senders can send prank messages'') s
      | Some info \<Rightarrow>
          if ci_type info \<noteq> Sender
          then send bad ws (ErrorMsg ''Only senders can send prank messages'') s
          else
            (case rooms s (ci_roomCode info) of
               None \<Rightarrow> send bad ws (ErrorMsg ''No targets connected'') s
             | Some room \<Rightarrow>
                 if length (clients room) = 0
                 then send bad ws (ErrorMsg ''No targets connected'') s
                 else
                   (case field ''payload'' message of
                      None \<Rightarrow> (Threw, s)
                    | Some JNull \<Rightarrow> (Threw, s)
                    | Some payload \<Rightarrow>
                        if \<not> toStringOk (field ''type'' payload) then (Threw, s)
                        else
                          (case relayAll bad payload (clients room) 0 s of
                             (deliveredCount, s1) \<Rightarrow>
                               send bad ws
                                 (PrankDelivered deliveredCount
                                    (case rooms s1 (ci_roomCode info) of
                                       None \<Rightarrow> length (clients room)
                                     | Some room1 \<Rightarrow> length (clients room1))) s1))))"

text \<open>The \<^verbatim>\<open>forEach\<close> of the sender branch of \<^verbatim>\<open>handleDisconnection\<close>.\<close>

fun notifyAll :: "handle set \<Rightarrow> handle list \<Rightarrow> server \<Rightarrow> server" where
  "notifyAll bad [] s = s"
| "notifyAll bad (client # rest) s = notifyAll bad rest (snd (send bad client SenderDisconnected s))"

text \<open>\<^verbatim>\<open>findIndex\<close> (\<open>None\<close> is \<^verbatim>\<open>-1\<close>) and \<^verbatim>\<open>splice(i, 1)\<close>.\<close>

fun findIndex :: "('a \<Rightarrow> bool) \<Rightarrow> 'a list \<Rightarrow> nat option" where
  "findIndex p [] = None"
| "findIndex p (x # xs) =
     (if p x then Some 0 else (case findIndex p xs of None \<Rightarrow> None | Some i \<Rightarrow> Some (Suc i)))"

definition splice1 :: "nat \<Rightarrow> 'a list \<Rightarrow> 'a list" where
  "splice1 i xs = take i xs @ drop (Suc i) xs"

text \<open>
  The end of \<^verbatim>\<open>handleDisconnection\<close>:
  \<^verbatim>\<open>if (!room.sender && room.clients.length === 0) rooms.delete(info.roomCode)\<close>,
  on the room as it is then.
\<close>

definition cleanUp :: "string \<Rightarrow> server \<Rightarrow> status \<times> server" where
  "cleanUp roomCode s =
     (case rooms s roomCode of
        None \<Rightarrow> (Returned, s)
      | Some room \<Rightarrow>
          if sender room = None \<and> length (clients room) = 0
          then (Returned, s\<lparr>rooms := (rooms s)(roomCode := None)\<rparr>)
          else (Returned, s))"

text \<open>
  \<^verbatim>\<open>handleDisconnection(info)\<close> is called with the closure's \<^verbatim>\<open>clientInfo\<close> only, so
  \<^verbatim>\<open>clientInfo.ws\<close> in its body is \<^verbatim>\<open>info.ws\<close>. Nothing in it is inside a \<^verbatim>\<open>try\<close> but
  the notifications of the sender branch.
\<close>

definition handleDisconnection :: "handle set \<Rightarrow> client_info \<Rightarrow> server \<Rightarrow> status \<times> server" where
  "handleDisconnection bad info s =
     (case rooms s (ci_roomCode info) of
        None \<Rightarrow> (Returned, s)
      | Some room0 \<Rightarrow>
          (case ci_type info of
             Sender \<Rightarrow>
               let room = room0\<lparr>sender := None\<rparr>;
                   s1 = s\<lparr>rooms := (rooms s)(ci_roomCode info \<mapsto> room)\<rparr>
               in cleanUp (ci_roomCode info) (notifyAll bad (clients room) s1)
           | Client \<Rightarrow>
               let room =
                     (case findIndex (\<lambda>client. Some client = ci_ws info) (clients room0) of
                        None \<Rightarrow> room0
                      | Some clientIndex \<Rightarrow>
                          room0\<lparr>clients := splice1 clientIndex (clients room0)\<rparr>);
                   s1 = s\<lparr>rooms := (rooms s)(ci_roomCode info \<mapsto> room)\<rparr>
               in thenDo
                    (thenDo (broadcastClientCount bad (ci_roomCode info) s1)
                       (\<lambda>s2. case sender room of
                                None \<Rightarrow> (Returned, s2)
                              | Some to \<Rightarrow>
                                  if length (clients room) > 0
                                  then send bad to (TargetUpdate (length (clients room))) s2
                                  else send bad to TargetLost s2))
                    (cleanUp (ci_roomCode info))))"

section \<open>The events of a connection\<close>

text \<open>
  \<^verbatim>\<open>ws.on('message')\<close>: \<open>data\<close> is what \<^verbatim>\<open>JSON.parse\<close> gives, \<open>None\<close> when it throws.
  Reading \<^verbatim>\<open>message.type\<close> throws when the message is \<^verbatim>\<open>null\<close>. The whole body is in a
  \<^verbatim>\<open>try\<close> whose \<^verbatim>\<open>catch\<close> only logs, so the event ends with the state as it is then.
\<close>

definition on_message :: "handle set \<Rightarrow> handle \<Rightarrow> json option \<Rightarrow> server \<Rightarrow> server" where
  "on_message bad ws data s =
     (case data of
        None \<Rightarrow> s
      | Some message \<Rightarrow>
          if message = JNull then s
          else if field ''type'' message = Some (JStr ''sender_join'')
            then snd (handleSenderJoin bad ws message s)
          else if field ''type'' message = Some (JStr ''client_join'')
            then snd (handleClientJoin bad ws message s)
          else if field ''type'' message = Some (JStr ''prank_message'')
            then snd (handlePrankMessage bad ws message s)
          else if field ''type'' message = Some (JStr ''ping'')
            then snd (send bad ws Pong s)
          else s)"

text \<open>
  \<^verbatim>\<open>ws.on('close')\<close>. Nothing catches what \<^verbatim>\<open>handleDisconnection\<close> throws: \<open>Threw\<close>
  is an uncaught exception of the process.
\<close>

definition on_close :: "handle set \<Rightarrow> handle \<Rightarrow> server \<Rightarrow> status \<times> server" where
  "on_close bad ws s =
     (case clientInfo s ws of
        None \<Rightarrow> (Returned, s)
      | Some info \<Rightarrow> handleDisconnection bad info s)"

text \<open>
  The states the process can be in between two events. Any connection may deliver any
  message or close at any time, with any set of failing sockets; the state an uncaught
  exception leaves behind is counted too.
\<close>

inductive reachable :: "server \<Rightarrow> bool" where
  start: "reachable init"
| message: "reachable s \<Longrightarrow> reachable (on_message bad ws data s)"
| close: "reachable s \<Longrightarrow> reachable (snd (on_close bad ws s))"

section \<open>The single-client variant\<close>

text \<open>
  \<^verbatim>\<open>src/server.js\<close> is the same server with one client slot per room,
  \<^verbatim>\<open>{ sender: null, client: null }\<close>, no \<^verbatim>\<open>client_count\<close> message and no counts in its
  texts; its \<^verbatim>\<open>clientInfo\<close> has no \<^verbatim>\<open>ws\<close> property (\<open>ci_ws\<close> is \<open>None\<close>). Its log
  line passes \<^verbatim>\<open>message.payload.type\<close> to \<^verbatim>\<open>console.log\<close> as an argument of its own,
  which converts nothing: reading the property of an absent or \<^verbatim>\<open>null\<close> payload is all
  that throws there.
\<close>

record room1 =
  sender1 :: "handle option"
  client1 :: "handle option"

datatype out_msg1 =
    ErrorMsg1 string
  | Pong1
  | TargetAcquiredOnline1
  | TargetAcquiredJoined1
  | WaitingForTarget1
  | Connected1
  | PrankMessage1 json
  | PrankDelivered1
  | SenderDisconnected1
  | TargetLost1

record server1 =
  rooms1 :: "string \<rightharpoonup> room1"
  clientInfo1 :: "handle \<Rightarrow> client_info option"
  sent1 :: "(handle \<times> out_msg1) list"

definition init1 :: server1 where
  "init1 = \<lparr>rooms1 = Map.empty, clientInfo1 = (\<lambda>h. None), sent1 = []\<rparr>"

definition send1 :: "handle set \<Rightarrow> handle \<Rightarrow> out_msg1 \<Rightarrow> server1 \<Rightarrow> status \<times> server1" where
  "send1 bad ws m s =
     (if ws \<in> bad then (Threw, s) else (Returned, s\<lparr>sent1 := sent1 s @ [(ws, m)]\<rparr>))"

definition thenDo1 :: "status \<times> server1 \<Rightarrow> (server1 \<Rightarrow> status \<times> server1) \<Rightarrow> status \<times> server1" where
  "thenDo1 r f = (case r of (Returned, s) \<Rightarrow> f s | (Threw, s) \<Rightarrow> (Threw, s))"

definition getOrCreate1 :: "server1 \<Rightarrow> string \<Rightarrow> room1" where
  "getOrCreate1 s roomCode =
     (case rooms1 s roomCode of
        None \<Rightarrow> \<lparr>sender1 = None, client1 = None\<rparr>
      | Some room \<Rightarrow> room)"

definition handleSenderJoin1 :: "handle set \<Rightarrow> handle \<Rightarrow> json \<Rightarrow> server1 \<Rightarrow> status \<times> server1" where
  "handleSenderJoin1 bad ws message s =
     (case field ''roomCode'' message of
        Some (JStr roomCode) \<Rightarrow>
          if roomCode \<noteq> PRANK_ROOM_CODE then send1 bad ws (ErrorMsg1 ''Invalid room code'') s
          else
            let room = (getOrCreate1 s roomCode)\<lparr>sender1 := Some ws\<rparr>;
                s1 = s\<lparr>rooms1 := (rooms1 s)(roomCode \<mapsto> room),
                       clientInfo1 := (clientInfo1 s)
                         (ws := Some \<lparr>ci_type = Sender, ci_roomCode = roomCode, ci_ws = None\<rparr>)\<rparr>
            in if client1 room \<noteq> None
               then send1 bad ws TargetAcquiredOnline1 s1
               else send1 bad ws WaitingForTarget1 s1
      | _ \<Rightarrow> send1 bad ws (ErrorMsg1 ''Invalid room code'') s)"

definition handleClientJoin1 :: "handle set \<Rightarrow> handle \<Rightarrow> json \<Rightarrow> server1 \<Rightarrow> status \<times> server1" where
  "handleClientJoin1 bad ws message s =
     (case field ''roomCode'' message of
        Some (JStr roomCode) \<Rightarrow>
          if roomCode \<noteq> PRANK_ROOM_CODE then send1 bad ws (ErrorMsg1 ''Invalid room code'') s
          else
            let room = (getOrCreate1 s roomCode)\<lparr>client1 := Some ws\<rparr>;
                s1 = s\<lparr>rooms1 := (rooms1 s)(roomCode \<mapsto> room),
                       clientInfo1 := (clientInfo1 s)
                         (ws := Some \<lparr>ci_type = Client, ci_roomCode = roomCode, ci_ws = None\<rparr>)\<rparr>
            in thenDo1 (send1 bad ws Connected1 s1)
                 (\<lambda>s2. case sender1 room of
                          None \<Rightarrow> (Returned, s2)
                        | Some to \<Rightarrow> send1 bad to TargetAcquiredJoined1 s2)
      | _ \<Rightarrow> send1 bad ws (ErrorMsg1 ''Invalid room code'') s)"

definition handlePrankMessage1 :: "handle set \<Rightarrow> handle \<Rightarrow> json \<Rightarrow> server1 \<Rightarrow> status \<times> server1" where
  "handlePrankMessage1 bad ws message s =
     (case clientInfo1 s ws of
        None \<Rightarrow> send1 bad ws (ErrorMsg1 ''Only senders can send prank messages'') s
      | Some info \<Rightarrow>
          if ci_type info \<noteq> Sender
          then send1 bad ws (ErrorMsg1 ''Only senders can send prank messages'') s
          else
            (case rooms1 s (ci_roomCode info) of
               None \<Rightarrow> send1 bad ws (ErrorMsg1 ''No target connected'') s
             | Some room \<Rightarrow>
                 (case client1 room of
                    None \<Rightarrow> send1 bad ws (ErrorMsg1 ''No target connected'') s
                  | Some to \<Rightarrow>
                      (case field ''payload'' message of
                         None \<Rightarrow> (Threw, s)
                       | Some JNull \<Rightarrow> (Threw, s)
                       | Some payload \<Rightarrow>
                           thenDo1 (send1 bad to (PrankMessage1 payload) s)
                             (send1 bad ws PrankDelivered1)))))"

definition cleanUp1 :: "string \<Rightarrow> server1 \<Rightarrow> status \<times> server1" where
  "cleanUp1 roomCode s =
     (case rooms1 s roomCode of
        None \<Rightarrow> (Returned, s)
      | Some room \<Rightarrow>
          if sender1 room = None \<and> client1 room = None
          then (Returned, s\<lparr>rooms1 := (rooms1 s)(roomCode := None)\<rparr>)
          else (Returned, s))"

definition handleDisconnection1 :: "handle set \<Rightarrow> client_info \<Rightarrow> server1 \<Rightarrow> status \<times> server1" where
  "handleDisconnection1 bad info s =
     (case rooms1 s (ci_roomCode info) of
        None \<Rightarrow> (Returned, s)
      | Some room0 \<Rightarrow>
          (case ci_type info of
             Sender \<Rightarrow>
               let room = room0\<lparr>sender1 := None\<rparr>;
                   s1 = s\<lparr>rooms1 := (rooms1 s)(ci_roomCode info \<mapsto> room)\<rparr>
               in thenDo1
                    (case client1 room of
                       None \<Rightarrow> (Returned, s1)
                     | Some to \<Rightarrow> send1 bad to SenderDisconnected1 s1)
                    (cleanUp1 (ci_roomCode info))
           | Client \<Rightarrow>
               let room = room0\<lparr>client1 := None\<rparr>;
                   s1 = s\<lparr>rooms1 := (rooms1 s)(ci_roomCode info \<mapsto> room)\<rparr>
               in thenDo1
                    (case sender1 room of
                       None \<Rightarrow> (Returned, s1)
                     | Some to \<Rightarrow> send1 bad to TargetLost1 s1)
                    (cleanUp1 (ci_roomCode info))))"

definition on_message1 :: "handle set \<Rightarrow> handle \<Rightarrow> json option \<Rightarrow> server1 \<Rightarrow> server1" where
  "on_message1 bad ws data s =
     (case data of
        None \<Rightarrow> s
      | Some message \<Rightarrow>
          if message = JNull then s
          else if field ''type'' message = Some (JStr ''sender_join'')
            then snd (handleSenderJoin1 bad ws message s)
          else if field ''type'' message = Some (JStr ''client_join'')
            then snd (handleClientJoin1 bad ws message s)
          else if field ''type'' message = Some (JStr ''prank_message'')
            then snd (handlePrankMessage1 bad ws message s)
          else if field ''type'' message = Some (JStr ''ping'')
            then snd (send1 bad ws Pong1 s)
          else s)"

definition on_close1 :: "handle set \<Rightarrow> handle \<Rightarrow> server1 \<Rightarrow> status \<times> server1" where
  "on_close1 bad ws s =
     (case clientInfo1 s ws of
        None \<Rightarrow> (Returned, s)
      | Some info \<Rightarrow> handleDisconnection1 bad info s)"

inductive reachable1 :: "server1 \<Rightarrow> bool" where
  start: "reachable1 init1"
| message: "reachable1 s \<Longrightarrow> reachable1 (on_message1 bad ws data s)"
| close: "reachable1 s \<Longrightarrow> reachable1 (snd (on_close1 bad ws s))"

section \<open>Notions the properties are stated with\<close>

text \<open>
  What the mutation of \<^verbatim>\<open>handleDisconnection\<close> makes of the room: the sender branch
  clears the sender slot, the client branch removes the first element of \<^verbatim>\<open>clients\<close>
  that is \<^verbatim>\<open>info.ws\<close> (nothing when \<^verbatim>\<open>info.ws\<close> is \<^verbatim>\<open>undefined\<close>).
\<close>

definition leave :: "client_info \<Rightarrow> room \<Rightarrow> room" where
  "leave info room0 =
     (case ci_type info of
        Sender \<Rightarrow> room0\<lparr>sender := None\<rparr>
      | Client \<Rightarrow>
          (case ci_ws info of
             None \<Rightarrow> room0
           | Some h \<Rightarrow> room0\<lparr>clients := remove1 h (clients room0)\<rparr>))"

text \<open>How often a handle stands in a room: in the sender slot, and in \<^verbatim>\<open>clients\<close>.\<close>

definition occurs :: "handle \<Rightarrow> room \<Rightarrow> nat" where
  "occurs h room = (if sender room = Some h then 1 else 0) + count_list (clients room) h"

text \<open>Sample messages: a join with the right room code, and a prank with a payload.\<close>

definition joinMsg :: "string \<Rightarrow> json" where
  "joinMsg t = JObj [(''type'', JStr t), (''roomCode'', JStr PRANK_ROOM_CODE)]"

definition prankMsg :: "json \<Rightarrow> json" where
  "prankMsg payload = JObj [(''type'', JStr ''prank_message''), (''payload'', payload)]"

text \<open>
  The states reached when no connection delivers a join message after its
  \<^verbatim>\<open>clientInfo\<close> was set.
\<close>

definition isJoin :: "json option \<Rightarrow> bool" where
  "isJoin data =
     (case data of
        None \<Rightarrow> False
      | Some message \<Rightarrow>
          field ''type'' message = Some (JStr ''sender_join'') \<or>
          field ''type'' message = Some (JStr ''client_join''))"

inductive reachableJoinOnce :: "server \<Rightarrow> bool" where
  start1: "reachableJoinOnce init"
| message1: "reachableJoinOnce s \<Longrightarrow> (isJoin data \<longrightarrow> clientInfo s ws = None) \<Longrightarrow>
     reachableJoinOnce (on_message bad ws data s)"
| close1: "reachableJoinOnce s \<Longrightarrow> reachableJoinOnce (snd (on_close bad ws s))"



text \<open>Sample states: a client waiting alone, a sender waiting alone, a sender with three clients.\<close>

definition senderInfo :: client_info where
  "senderInfo = \<lparr>ci_type = Sender, ci_roomCode = PRANK_ROOM_CODE, ci_ws = None\<rparr>"

definition clientInfoOf :: "handle \<Rightarrow> client_info" where
  "clientInfoOf h = \<lparr>ci_type = Client, ci_roomCode = PRANK_ROOM_CODE, ci_ws = Some h\<rparr>"

definition clientWaiting :: server where
  "clientWaiting =
     \<lparr>rooms = [PRANK_ROOM_CODE \<mapsto> \<lparr>sender = None, clients = [2]\<rparr>],
      clientInfo = (\<lambda>h. None)(2 \<mapsto> clientInfoOf 2),
      sent = []\<rparr>"

definition senderWaiting :: server where
  "senderWaiting =
     \<lparr>rooms = [PRANK_ROOM_CODE \<mapsto> \<lparr>sender = Some 1, clients = []\<rparr>],
      clientInfo = (\<lambda>h. None)(1 \<mapsto> senderInfo),
      sent = []\<rparr>"

definition threeClients :: server where
  "threeClients =
     \<lparr>rooms = [PRANK_ROOM_CODE \<mapsto> \<lparr>sender = Some 1, clients = [2, 3, 4]\<rparr>],
      clientInfo = (\<lambda>h. None)
        (1 \<mapsto> senderInfo, 2 \<mapsto> clientInfoOf 2, 3 \<mapsto> clientInfoOf 3, 4 \<mapsto> clientInfoOf 4),
      sent = []\<rparr>"

section \<open>What the handlers leave unchanged\<close>

lemma send_rooms [simp]: "rooms (snd (send bad ws m s)) = rooms s"
  by (simp add: send_def)

lemma send_clientInfo [simp]: "clientInfo (snd (send bad ws m s)) = clientInfo s"
  by (simp add: send_def)

lemma send_sent: "sent (snd (send bad ws m s)) = (if ws \<in> bad then sent s else sent s @ [(ws, m)])"
  by (simp add: send_def)

lemma thenDo_rooms:
  assumes "\<And>s'. rooms (snd (f s')) = rooms s'"
  shows "rooms (snd (thenDo r f)) = rooms (snd r)"
  using assms by (cases r) (simp add: thenDo_def split: status.splits)

lemma thenDo_clientInfo:
  assumes "\<And>s'. clientInfo (snd (f s')) = clientInfo s'"
  shows "clientInfo (snd (thenDo r f)) = clientInfo (snd r)"
  using assms by (cases r) (simp add: thenDo_def split: status.splits)

lemma broadcastClientCount_rooms [simp]:
  "rooms (snd (broadcastClientCount bad rc s)) = rooms s"
  by (simp add: broadcastClientCount_def split: option.splits)

lemma broadcastClientCount_clientInfo [simp]:
  "clientInfo (snd (broadcastClientCount bad rc s)) = clientInfo s"
  by (simp add: broadcastClientCount_def split: option.splits)

lemma relayAll_rooms [simp]: "rooms (snd (relayAll bad p cs n s)) = rooms s"
  by (induction cs arbitrary: n s) (simp_all add: send_def)

lemma relayAll_clientInfo [simp]: "clientInfo (snd (relayAll bad p cs n s)) = clientInfo s"
  by (induction cs arbitrary: n s) (simp_all add: send_def)

lemma notifyAll_rooms [simp]: "rooms (notifyAll bad cs s) = rooms s"
  by (induction cs arbitrary: s) simp_all

lemma notifyAll_clientInfo [simp]: "clientInfo (notifyAll bad cs s) = clientInfo s"
  by (induction cs arbitrary: s) simp_all

lemma handleSenderJoin_rooms:
  "rooms (snd (handleSenderJoin bad ws m s)) =
     (if field ''roomCode'' m = Some (JStr PRANK_ROOM_CODE)
      then (rooms s)(PRANK_ROOM_CODE \<mapsto> (getOrCreate s PRANK_ROOM_CODE)\<lparr>sender := Some ws\<rparr>)
      else rooms s)"
  by (auto simp: handleSenderJoin_def Let_def thenDo_rooms split: option.splits json.splits)

lemma handleSenderJoin_clientInfo:
  "clientInfo (snd (handleSenderJoin bad ws m s)) =
     (if field ''roomCode'' m = Some (JStr PRANK_ROOM_CODE)
      then (clientInfo s)(ws := Some \<lparr>ci_type = Sender, ci_roomCode = PRANK_ROOM_CODE, ci_ws = None\<rparr>)
      else clientInfo s)"
  by (auto simp: handleSenderJoin_def Let_def thenDo_clientInfo split: option.splits json.splits)

lemma handleClientJoin_rooms:
  "rooms (snd (handleClientJoin bad ws m s)) =
     (if field ''roomCode'' m = Some (JStr PRANK_ROOM_CODE)
      then (rooms s)(PRANK_ROOM_CODE \<mapsto>
             (getOrCreate s PRANK_ROOM_CODE)\<lparr>clients := clients (getOrCreate s PRANK_ROOM_CODE) @ [ws]\<rparr>)
      else rooms s)"
  by (auto simp: handleClientJoin_def Let_def thenDo_rooms split: option.splits json.splits)

lemma handleClientJoin_clientInfo:
  "clientInfo (snd (handleClientJoin bad ws m s)) =
     (if field ''roomCode'' m = Some (JStr PRANK_ROOM_CODE)
      then (clientInfo s)(ws := Some \<lparr>ci_type = Client, ci_roomCode = PRANK_ROOM_CODE, ci_ws = Some ws\<rparr>)
      else clientInfo s)"
  by (auto simp: handleClientJoin_def Let_def thenDo_clientInfo split: option.splits json.splits)

lemma handlePrankMessage_rooms [simp]:
  "rooms (snd (handlePrankMessage bad ws m s)) = rooms s"
  by (auto simp: handlePrankMessage_def split: option.splits json.splits prod.splits)
   (metis relayAll_rooms snd_conv)+

lemma handlePrankMessage_clientInfo [simp]:
  "clientInfo (snd (handlePrankMessage bad ws m s)) = clientInfo s"
  by (auto simp: handlePrankMessage_def split: option.splits json.splits prod.splits)
   (metis relayAll_clientInfo snd_conv)+

section \<open>Disconnection\<close>

lemma findIndex_None: "findIndex p xs = None \<longleftrightarrow> (\<forall>x\<in>set xs. \<not> p x)"
  by (induction xs) (auto split: option.splits)

lemma findIndex_splice1:
  "(case findIndex (\<lambda>x. x = h) xs of None \<Rightarrow> xs | Some i \<Rightarrow> splice1 i xs) = remove1 h xs"
  by (induction xs) (auto simp: splice1_def split: option.splits)

lemma findIndex_undefined: "findIndex (\<lambda>x. False) xs = None"
  by (induction xs) auto

lemma cleanUp_clientInfo [simp]: "clientInfo (snd (cleanUp rc s)) = clientInfo s"
  by (simp add: cleanUp_def split: option.splits)

lemma cleanUp_rooms:
  "rooms (snd (cleanUp rc s)) =
     (case rooms s rc of None \<Rightarrow> rooms s
      | Some room \<Rightarrow> if sender room = None \<and> clients room = [] then (rooms s)(rc := None) else rooms s)"
  by (simp add: cleanUp_def split: option.splits)

lemma handleDisconnection_clientInfo [simp]:
  "clientInfo (snd (handleDisconnection bad info s)) = clientInfo s"
  by (simp add: handleDisconnection_def Let_def thenDo_clientInfo
        split: option.splits role.splits)

lemma leave_Client:
  assumes "ci_type info = Client"
  shows "(case findIndex (\<lambda>client. Some client = ci_ws info) (clients room0) of
      None \<Rightarrow> room0
    | Some clientIndex \<Rightarrow> room0\<lparr>clients := splice1 clientIndex (clients room0)\<rparr>)
   = leave info room0"
proof (cases "ci_ws info")
  case None
  then show ?thesis using assms by (simp add: leave_def findIndex_undefined)
next
  case (Some h)
  have "(case findIndex (\<lambda>x. x = h) (clients room0) of
           None \<Rightarrow> room0
         | Some i \<Rightarrow> room0\<lparr>clients := splice1 i (clients room0)\<rparr>)
        = room0\<lparr>clients := (case findIndex (\<lambda>x. x = h) (clients room0) of
                                 None \<Rightarrow> clients room0
                               | Some i \<Rightarrow> splice1 i (clients room0))\<rparr>"
    by (simp split: option.splits)
  then show ?thesis
    using Some assms by (simp add: leave_def findIndex_splice1)
qed

lemma client_notify_rooms:
  "rooms (snd (thenDo (broadcastClientCount bad rc s1)
      (\<lambda>s2. case sender room of
              None \<Rightarrow> (Returned, s2)
            | Some to \<Rightarrow>
                if length (clients room) > 0
                then send bad to (TargetUpdate (length (clients room))) s2
                else send bad to TargetLost s2))) = rooms s1"
  by (simp add: thenDo_rooms split: option.splits)

lemma client_notify_Threw:
  assumes "rooms s1 rc = Some room"
    and "fst (thenDo (broadcastClientCount bad rc s1)
      (\<lambda>s2. case sender room of
              None \<Rightarrow> (Returned, s2)
            | Some to \<Rightarrow>
                if length (clients room) > 0
                then send bad to (TargetUpdate (length (clients room))) s2
                else send bad to TargetLost s2)) = Threw"
  shows "sender room \<noteq> None"
  using assms
  by (auto simp: thenDo_def broadcastClientCount_def send_def split: option.splits if_splits)


lemma handleDisconnection_rooms:
  "rooms (snd (handleDisconnection bad info s)) =
     (case rooms s (ci_roomCode info) of
        None \<Rightarrow> rooms s
      | Some room0 \<Rightarrow>
          if sender (leave info room0) = None \<and> clients (leave info room0) = []
          then (rooms s)(ci_roomCode info := None)
          else (rooms s)(ci_roomCode info \<mapsto> leave info room0))"
proof (cases "rooms s (ci_roomCode info)")
  case None
  then show ?thesis by (simp add: handleDisconnection_def)
next
  case (Some room0)
  show ?thesis
  proof (cases "ci_type info")
    case Sender
    then show ?thesis
      using Some
      by (simp add: handleDisconnection_def Let_def cleanUp_rooms leave_def)
  next
    case Client
    define room where "room = leave info room0"
    define s1 where "s1 = s\<lparr>rooms := (rooms s)(ci_roomCode info \<mapsto> room)\<rparr>"
    define r where "r = thenDo (broadcastClientCount bad (ci_roomCode info) s1)
      (\<lambda>s2. case sender room of
              None \<Rightarrow> (Returned, s2)
            | Some to \<Rightarrow>
                if length (clients room) > 0
                then send bad to (TargetUpdate (length (clients room))) s2
                else send bad to TargetLost s2)"
    have hd: "handleDisconnection bad info s = thenDo r (cleanUp (ci_roomCode info))"
      unfolding r_def s1_def room_def using Some Client
      by (simp add: handleDisconnection_def Let_def leave_Client)
    have rr: "rooms (snd r) = rooms s1"
      unfolding r_def by (rule client_notify_rooms)
    have s1r: "rooms s1 = (rooms s)(ci_roomCode info \<mapsto> room)"
      by (simp add: s1_def)
    show ?thesis
    proof (cases "fst r")
      case Returned
      then have "thenDo r (cleanUp (ci_roomCode info)) = cleanUp (ci_roomCode info) (snd r)"
        by (cases r) (simp add: thenDo_def)
      then have "rooms (snd (handleDisconnection bad info s)) =
          (if sender room = None \<and> clients room = []
           then (rooms s1)(ci_roomCode info := None) else rooms s1)"
        using hd rr s1r by (simp add: cleanUp_rooms)
      then show ?thesis
        using Some s1r by (simp add: room_def)
    next
      case Threw
      have "rooms s1 (ci_roomCode info) = Some room"
        by (simp add: s1r)
      then have "sender room \<noteq> None"
        using Threw client_notify_Threw [of s1 "ci_roomCode info" room bad]
        unfolding r_def by simp
      moreover have "thenDo r (cleanUp (ci_roomCode info)) = r"
        using Threw by (cases r) (simp add: thenDo_def)
      ultimately show ?thesis
        using Some hd rr s1r by (auto simp: room_def)
    qed
  qed
qed

section \<open>The registry in every reachable state\<close>

lemma on_message_rooms:
  "rooms (on_message bad ws data s) = rooms s \<or>
   rooms (on_message bad ws data s) =
     (rooms s)(PRANK_ROOM_CODE \<mapsto> (getOrCreate s PRANK_ROOM_CODE)\<lparr>sender := Some ws\<rparr>) \<or>
   rooms (on_message bad ws data s) =
     (rooms s)(PRANK_ROOM_CODE \<mapsto>
        (getOrCreate s PRANK_ROOM_CODE)\<lparr>clients := clients (getOrCreate s PRANK_ROOM_CODE) @ [ws]\<rparr>)"
  by (simp add: on_message_def handleSenderJoin_rooms handleClientJoin_rooms split: option.splits)


lemma on_close_clientInfo [simp]: "clientInfo (snd (on_close bad ws s)) = clientInfo s"
  by (simp add: on_close_def split: option.splits)

lemma on_close_rooms:
  "rooms (snd (on_close bad ws s)) =
     (case clientInfo s ws of
        None \<Rightarrow> rooms s
      | Some info \<Rightarrow>
          (case rooms s (ci_roomCode info) of
             None \<Rightarrow> rooms s
           | Some room0 \<Rightarrow>
               if sender (leave info room0) = None \<and> clients (leave info room0) = []
               then (rooms s)(ci_roomCode info := None)
               else (rooms s)(ci_roomCode info \<mapsto> leave info room0)))"
  by (simp add: on_close_def handleDisconnection_rooms split: option.splits)

lemma on_message_room_cases:
  assumes "rooms (on_message bad ws data s) k = Some r"
  shows "rooms s k = Some r \<or>
         k = PRANK_ROOM_CODE \<and> r = (getOrCreate s PRANK_ROOM_CODE)\<lparr>sender := Some ws\<rparr> \<or>
         k = PRANK_ROOM_CODE \<and>
           r = (getOrCreate s PRANK_ROOM_CODE)\<lparr>clients := clients (getOrCreate s PRANK_ROOM_CODE) @ [ws]\<rparr>"
  using assms on_message_rooms [of bad ws data s] by (auto split: if_splits)

lemma on_close_room_cases:
  assumes "rooms (snd (on_close bad ws s)) k = Some r"
  shows "rooms s k = Some r \<or>
         (\<exists>info room0. clientInfo s ws = Some info \<and> rooms s k = Some room0 \<and>
            r = leave info room0 \<and> (sender r \<noteq> None \<or> clients r \<noteq> []))"
  using assms by (auto simp: on_close_rooms split: option.splits if_splits)

lemma reachable_keys:
  "reachable s \<Longrightarrow> rooms s k = Some r \<Longrightarrow> k = PRANK_ROOM_CODE"
proof (induction arbitrary: k r rule: reachable.induct)
  case start
  then show ?case by (simp add: init_def)
next
  case (message s bad ws data)
  from on_message_room_cases [OF message.prems] message.IH show ?case by blast
next
  case (close s bad ws)
  from on_close_room_cases [OF close.prems] close.IH show ?case by blast
qed


lemma reachable_nonempty:
  "reachable s \<Longrightarrow> rooms s rc = Some room \<Longrightarrow> sender room \<noteq> None \<or> clients room \<noteq> []"
proof (induction arbitrary: rc room rule: reachable.induct)
  case start
  then show ?case by (simp add: init_def)
next
  case (message s bad ws data)
  from on_message_room_cases [OF message.prems]
  consider "rooms s rc = Some room" | "sender room = Some ws" | "clients room \<noteq> []"
    by auto
  then show ?case
    using message.IH by cases auto
next
  case (close s bad ws)
  from on_close_room_cases [OF close.prems] close.IH show ?case by blast
qed

section \<open>One message\<close>

lemma field_JNull: "field k m = Some v \<Longrightarrow> m \<noteq> JNull"
  by (cases m) simp_all

lemma on_message_sender_join:
  "field ''type'' m = Some (JStr ''sender_join'') \<Longrightarrow>
   on_message bad ws (Some m) s = snd (handleSenderJoin bad ws m s)"
  by (simp add: on_message_def field_JNull)

lemma on_message_client_join:
  "field ''type'' m = Some (JStr ''client_join'') \<Longrightarrow>
   on_message bad ws (Some m) s = snd (handleClientJoin bad ws m s)"
  by (simp add: on_message_def field_JNull)

lemma on_message_prank_message:
  "field ''type'' m = Some (JStr ''prank_message'') \<Longrightarrow>
   on_message bad ws (Some m) s = snd (handlePrankMessage bad ws m s)"
  by (simp add: on_message_def field_JNull)

lemma handleSenderJoin_wrong:
  "field ''roomCode'' m \<noteq> Some (JStr PRANK_ROOM_CODE) \<Longrightarrow>
   handleSenderJoin bad ws m s = send bad ws (ErrorMsg ''Invalid room code'') s"
  by (simp add: handleSenderJoin_def split: option.splits json.splits)

lemma handleClientJoin_wrong:
  "field ''roomCode'' m \<noteq> Some (JStr PRANK_ROOM_CODE) \<Longrightarrow>
   handleClientJoin bad ws m s = send bad ws (ErrorMsg ''Invalid room code'') s"
  by (simp add: handleClientJoin_def split: option.splits json.splits)

lemma snd_send:
  "snd (send bad ws m s) = (if ws \<in> bad then s else s\<lparr>sent := sent s @ [(ws, m)]\<rparr>)"
  by (simp add: send_def)

lemma handleSenderJoin_right:
  assumes "field ''roomCode'' m = Some (JStr PRANK_ROOM_CODE)"
  shows "snd (handleSenderJoin bad ws m s) =
     s\<lparr>rooms := (rooms s)(PRANK_ROOM_CODE \<mapsto> (getOrCreate s PRANK_ROOM_CODE)\<lparr>sender := Some ws\<rparr>),
       clientInfo := (clientInfo s)
         (ws := Some \<lparr>ci_type = Sender, ci_roomCode = PRANK_ROOM_CODE, ci_ws = None\<rparr>),
       sent :=
         (if ws \<in> bad then sent s
          else sent s @
            [(ws, ClientCount (length (clients (getOrCreate s PRANK_ROOM_CODE)))),
             (ws, if 0 < length (clients (getOrCreate s PRANK_ROOM_CODE))
                  then TargetAcquiredOnline (length (clients (getOrCreate s PRANK_ROOM_CODE)))
                  else WaitingForTarget)])\<rparr>"
  using assms
  by (simp add: handleSenderJoin_def Let_def broadcastClientCount_def thenDo_def send_def)


lemma relayAll_eq:
  "relayAll bad p cs n s =
     (n + length (filter (\<lambda>c. c \<notin> bad) cs),
      s\<lparr>sent := sent s @ map (\<lambda>c. (c, PrankMessage p)) (filter (\<lambda>c. c \<notin> bad) cs)\<rparr>)"
  by (induction cs arbitrary: n s) (simp_all add: send_def)

lemma handlePrankMessage_relay:
  assumes "clientInfo s ws = Some info" and "ci_type info = Sender"
    and "rooms s (ci_roomCode info) = Some room" and "clients room \<noteq> []"
    and "field ''payload'' m = Some p" and "p \<noteq> JNull"
    and "toStringOk (field ''type'' p)"
  shows "handlePrankMessage bad ws m s =
     send bad ws
       (PrankDelivered (length (filter (\<lambda>c. c \<notin> bad) (clients room))) (length (clients room)))
       (s\<lparr>sent := sent s @
           map (\<lambda>c. (c, PrankMessage p)) (filter (\<lambda>c. c \<notin> bad) (clients room))\<rparr>)"
  using assms by (cases p) (simp_all add: handlePrankMessage_def relayAll_eq)

lemma handlePrankMessage_no_payload:
  assumes "clientInfo s ws = Some info" and "ci_type info = Sender"
    and "rooms s (ci_roomCode info) = Some room" and "clients room \<noteq> []"
    and "field ''payload'' m = None \<or> field ''payload'' m = Some JNull"
  shows "handlePrankMessage bad ws m s = (Threw, s)"
  using assms by (auto simp: handlePrankMessage_def)

lemma handlePrankMessage_log_throws:
  assumes "clientInfo s ws = Some info" and "ci_type info = Sender"
    and "rooms s (ci_roomCode info) = Some room" and "clients room \<noteq> []"
    and "field ''payload'' m = Some p" and "\<not> toStringOk (field ''type'' p)"
  shows "handlePrankMessage bad ws m s = (Threw, s)"
  using assms by (cases p) (simp_all add: handlePrankMessage_def)

lemma toStringOk_examples:
  "toStringOk (field ''type'' (JObj [(''type'', JStr ''X'')]))"
  "toStringOk (field ''type'' (JStr ''X''))"
  "toStringOk (field ''type'' (JObj [(''type'', JObj [(''kind'', JNum 1)])]))"
  "toStringOk (field ''type'' (JObj [(''type'', JArr [JNull, JNum 1, JArr []])]))"
  "\<not> toStringOk (field ''type'' (JObj [(''type'', JObj [(''toString'', JNum 0)])]))"
  "\<not> toStringOk (field ''type'' (JObj [(''type'', JArr [JObj [(''toString'', JNull)]])]))"
  by (simp_all add: toStringOk_def)

lemma handlePrankMessage_wrong_role:
  assumes "\<forall>info. clientInfo s ws = Some info \<longrightarrow> ci_type info \<noteq> Sender"
  shows "handlePrankMessage bad ws m s =
     send bad ws (ErrorMsg ''Only senders can send prank messages'') s"
  using assms by (simp add: handlePrankMessage_def split: option.splits)

lemma handlePrankMessage_no_targets:
  assumes "clientInfo s ws = Some info" and "ci_type info = Sender"
    and "\<forall>room. rooms s (ci_roomCode info) = Some room \<longrightarrow> clients room = []"
  shows "handlePrankMessage bad ws m s = send bad ws (ErrorMsg ''No targets connected'') s"
  using assms by (simp add: handlePrankMessage_def split: option.splits)

lemma filter_bad_length:
  "length (filter (\<lambda>c. c \<notin> bad) cs) = length cs - length (filter (\<lambda>c. c \<in> bad) cs)"
  using sum_length_filter_compl [of "\<lambda>c. c \<in> bad" cs] by simp

section \<open>A client leaves, clients join\<close>

lemma handleDisconnection_client:
  assumes "ci_type info = Client" and "ci_ws info = Some ws"
    and "rooms s (ci_roomCode info) = Some room"
    and "\<forall>c. sender room = Some c \<longrightarrow> c \<notin> bad"
  shows "handleDisconnection bad info s =
     (Returned,
      s\<lparr>rooms :=
          (if sender room = None \<and> remove1 ws (clients room) = []
           then (rooms s)(ci_roomCode info := None)
           else (rooms s)(ci_roomCode info \<mapsto> room\<lparr>clients := remove1 ws (clients room)\<rparr>)),
        sent := sent s @
          (case sender room of
             None \<Rightarrow> []
           | Some c \<Rightarrow>
               [(c, ClientCount (length (remove1 ws (clients room)))),
                (c, if 0 < length (remove1 ws (clients room))
                    then TargetUpdate (length (remove1 ws (clients room)))
                    else TargetLost)])\<rparr>)"
proof -
  have l: "(case findIndex (\<lambda>client. Some client = ci_ws info) (clients room) of
      None \<Rightarrow> room
    | Some clientIndex \<Rightarrow> room\<lparr>clients := splice1 clientIndex (clients room)\<rparr>)
    = room\<lparr>clients := remove1 ws (clients room)\<rparr>"
    using leave_Client [OF assms(1), of room] assms(1,2) by (simp add: leave_def)
  show ?thesis
  proof (cases "sender room")
    case None
    then show ?thesis
      using assms(1,3)
      by (simp add: handleDisconnection_def l Let_def broadcastClientCount_def thenDo_def
            cleanUp_def)
  next
    case (Some c)
    then have "c \<notin> bad" using assms(4) by simp
    then show ?thesis
      using assms(1,3) Some
      by (simp add: handleDisconnection_def l Let_def broadcastClientCount_def thenDo_def
            cleanUp_def send_def)
  qed
qed

lemma filter_remove1_others: "filter (\<lambda>c. c \<noteq> h) (remove1 h cs) = filter (\<lambda>c. c \<noteq> h) cs"
  by (induction cs) auto


lemma prankMsg_fields:
  "field ''type'' (prankMsg p) = Some (JStr ''prank_message'')"
  "field ''payload'' (prankMsg p) = Some p"
  by (simp_all add: prankMsg_def)










section \<open>Connections that join once\<close>

lemma on_message_effect:
  "rooms (on_message bad ws data s) = rooms s \<and> clientInfo (on_message bad ws data s) = clientInfo s \<or>
   isJoin data \<and>
     rooms (on_message bad ws data s) =
       (rooms s)(PRANK_ROOM_CODE \<mapsto> (getOrCreate s PRANK_ROOM_CODE)\<lparr>sender := Some ws\<rparr>) \<and>
     clientInfo (on_message bad ws data s) =
       (clientInfo s)(ws := Some \<lparr>ci_type = Sender, ci_roomCode = PRANK_ROOM_CODE, ci_ws = None\<rparr>) \<or>
   isJoin data \<and>
     rooms (on_message bad ws data s) =
       (rooms s)(PRANK_ROOM_CODE \<mapsto>
          (getOrCreate s PRANK_ROOM_CODE)\<lparr>clients := clients (getOrCreate s PRANK_ROOM_CODE) @ [ws]\<rparr>) \<and>
     clientInfo (on_message bad ws data s) =
       (clientInfo s)(ws := Some \<lparr>ci_type = Client, ci_roomCode = PRANK_ROOM_CODE, ci_ws = Some ws\<rparr>)"
  by (simp add: on_message_def isJoin_def handleSenderJoin_rooms handleSenderJoin_clientInfo
        handleClientJoin_rooms handleClientJoin_clientInfo split: option.splits)

lemma reachableJoinOnce_reachable: "reachableJoinOnce s \<Longrightarrow> reachable s"
  by (induction rule: reachableJoinOnce.induct) (auto intro: reachable.intros)

lemma getOrCreate_cases:
  "rooms s k = None \<and> getOrCreate s k = \<lparr>sender = None, clients = []\<rparr> \<or>
   rooms s k = Some (getOrCreate s k)"
  by (simp add: getOrCreate_def split: option.splits)

lemma joinOnce_inv:
  assumes "reachableJoinOnce s" and "rooms s rc = Some room"
  shows "distinct (clients room) \<and>
         (\<forall>h. sender room = Some h \<longrightarrow> h \<notin> set (clients room)) \<and>
         (\<forall>h. sender room = Some h \<or> h \<in> set (clients room) \<longrightarrow> clientInfo s h \<noteq> None)"
  using assms
proof (induction arbitrary: rc room rule: reachableJoinOnce.induct)
  case start1
  then show ?case by (simp add: init_def)
next
  case (message1 s data ws bad)
  let ?s' = "on_message bad ws data s"
  let ?g = "getOrCreate s PRANK_ROOM_CODE"
  have g: "distinct (clients ?g) \<and>
         (\<forall>h. sender ?g = Some h \<longrightarrow> h \<notin> set (clients ?g)) \<and>
         (\<forall>h. sender ?g = Some h \<or> h \<in> set (clients ?g) \<longrightarrow> clientInfo s h \<noteq> None)"
    using getOrCreate_cases [of s PRANK_ROOM_CODE] message1.IH [of PRANK_ROOM_CODE ?g]
    by auto
  from on_message_effect [of bad ws data s]
  consider (same) "rooms ?s' = rooms s" "clientInfo ?s' = clientInfo s"
    | (sender) "isJoin data"
        "rooms ?s' = (rooms s)(PRANK_ROOM_CODE \<mapsto> ?g\<lparr>sender := Some ws\<rparr>)"
        "clientInfo ?s' =
          (clientInfo s)(ws := Some \<lparr>ci_type = Sender, ci_roomCode = PRANK_ROOM_CODE, ci_ws = None\<rparr>)"
    | (client) "isJoin data"
        "rooms ?s' = (rooms s)(PRANK_ROOM_CODE \<mapsto> ?g\<lparr>clients := clients ?g @ [ws]\<rparr>)"
        "clientInfo ?s' =
          (clientInfo s)(ws := Some \<lparr>ci_type = Client, ci_roomCode = PRANK_ROOM_CODE, ci_ws = Some ws\<rparr>)"
    by blast
  then show ?case
  proof cases
    case same
    then show ?thesis
      using message1.IH [of rc room] message1.prems by simp
  next
    case sender
    then have n: "clientInfo s ws = None" using message1.hyps(2) by simp
    show ?thesis
    proof (cases "rc = PRANK_ROOM_CODE")
      case True
      then have "room = ?g\<lparr>sender := Some ws\<rparr>"
        using message1.prems sender(2) by simp
      then show ?thesis
        using g n sender(3) by auto
    next
      case False
      then have "rooms s rc = Some room"
        using message1.prems sender(2) by simp
      then show ?thesis
        using message1.IH [of rc room] sender(3) by auto
    qed
  next
    case client
    then have n: "clientInfo s ws = None" using message1.hyps(2) by simp
    show ?thesis
    proof (cases "rc = PRANK_ROOM_CODE")
      case True
      then have "room = ?g\<lparr>clients := clients ?g @ [ws]\<rparr>"
        using message1.prems client(2) by simp
      then show ?thesis
        using g n client(3) by auto
    next
      case False
      then have "rooms s rc = Some room"
        using message1.prems client(2) by simp
      then show ?thesis
        using message1.IH [of rc room] client(3) by auto
    qed
  qed
next
  case (close1 s bad ws)
  from on_close_room_cases [OF close1.prems]
  consider "rooms s rc = Some room"
    | info room0 where "clientInfo s ws = Some info" "rooms s rc = Some room0" "room = leave info room0"
    by blast
  then show ?case
  proof cases
    case 1
    then show ?thesis using close1.IH [of rc room] by simp
  next
    case 2
    have "set (clients room) \<subseteq> set (clients room0)" "sender room = None \<or> sender room = sender room0"
      "distinct (clients room0) \<longrightarrow> distinct (clients room)"
      using 2(3) by (auto simp: leave_def split: role.splits option.splits dest: set_remove1_subset [THEN subsetD])
    then show ?thesis
      using close1.IH [of rc room0] 2(2) by auto
  qed
qed

lemma distinct_count_list: "distinct xs \<Longrightarrow> count_list xs x \<le> 1"
  by (induction xs) (auto simp: count_list_0_iff)

section \<open>The registry of the single-client variant\<close>

lemma send1_rooms [simp]: "rooms1 (snd (send1 bad ws m s)) = rooms1 s"
  by (simp add: send1_def)

lemma thenDo1_rooms:
  assumes "\<And>s'. rooms1 (snd (f s')) = rooms1 s'"
  shows "rooms1 (snd (thenDo1 r f)) = rooms1 (snd r)"
  using assms by (cases r) (simp add: thenDo1_def split: status.splits)

lemma handleSenderJoin1_rooms:
  "rooms1 (snd (handleSenderJoin1 bad ws m s)) k = rooms1 s k \<or> k = PRANK_ROOM_CODE"
  by (auto simp: handleSenderJoin1_def Let_def split: option.splits json.splits)

lemma handleClientJoin1_rooms:
  "rooms1 (snd (handleClientJoin1 bad ws m s)) k = rooms1 s k \<or> k = PRANK_ROOM_CODE"
  by (auto simp: handleClientJoin1_def Let_def thenDo1_rooms split: option.splits json.splits)

lemma handlePrankMessage1_rooms [simp]:
  "rooms1 (snd (handlePrankMessage1 bad ws m s)) = rooms1 s"
  by (auto simp: handlePrankMessage1_def thenDo1_rooms split: option.splits json.splits)

lemma thenDo1_cleanUp1_rooms:
  assumes "rooms1 (snd (thenDo1 r (cleanUp1 rc))) k = Some x"
  shows "rooms1 (snd r) k = Some x"
  using assms
  by (cases r) (auto simp: thenDo1_def cleanUp1_def split: status.splits option.splits if_splits)

lemma on_message1_rooms:
  "rooms1 (on_message1 bad ws data s) k = rooms1 s k \<or> k = PRANK_ROOM_CODE"
  using handleSenderJoin1_rooms [of bad ws _ s k] handleClientJoin1_rooms [of bad ws _ s k]
  by (simp add: on_message1_def split: option.splits)

lemma handleDisconnection1_dom:
  assumes "rooms1 (snd (handleDisconnection1 bad info s)) k = Some x"
  shows "rooms1 s k \<noteq> None"
proof (cases "rooms1 s (ci_roomCode info)")
  case None
  then show ?thesis using assms by (simp add: handleDisconnection1_def)
next
  case (Some room0)
  obtain r room where r: "handleDisconnection1 bad info s = thenDo1 r (cleanUp1 (ci_roomCode info))"
    and rr: "rooms1 (snd r) = (rooms1 s)(ci_roomCode info \<mapsto> room)"
  proof (cases "ci_type info")
    case Sender
    show ?thesis
      by (rule that [of "case client1 (room0\<lparr>sender1 := None\<rparr>) of
             None \<Rightarrow> (Returned, s\<lparr>rooms1 := (rooms1 s)(ci_roomCode info \<mapsto> room0\<lparr>sender1 := None\<rparr>)\<rparr>)
           | Some to \<Rightarrow> send1 bad to SenderDisconnected1
               (s\<lparr>rooms1 := (rooms1 s)(ci_roomCode info \<mapsto> room0\<lparr>sender1 := None\<rparr>)\<rparr>)"
            "room0\<lparr>sender1 := None\<rparr>"])
        (use Some Sender in \<open>simp_all add: handleDisconnection1_def Let_def split: option.splits\<close>)
  next
    case Client
    show ?thesis
      by (rule that [of "case sender1 (room0\<lparr>client1 := None\<rparr>) of
             None \<Rightarrow> (Returned, s\<lparr>rooms1 := (rooms1 s)(ci_roomCode info \<mapsto> room0\<lparr>client1 := None\<rparr>)\<rparr>)
           | Some to \<Rightarrow> send1 bad to TargetLost1
               (s\<lparr>rooms1 := (rooms1 s)(ci_roomCode info \<mapsto> room0\<lparr>client1 := None\<rparr>)\<rparr>)"
            "room0\<lparr>client1 := None\<rparr>"])
        (use Some Client in \<open>simp_all add: handleDisconnection1_def Let_def split: option.splits\<close>)
  qed
  from assms r have "rooms1 (snd r) k = Some x"
    using thenDo1_cleanUp1_rooms [of r "ci_roomCode info" k x] by simp
  then show ?thesis
    using rr Some by (auto split: if_splits)
qed

lemma on_close1_dom:
  "rooms1 (snd (on_close1 bad ws s)) k = Some x \<Longrightarrow> rooms1 s k \<noteq> None"
  using handleDisconnection1_dom [of bad _ s k x]
  by (auto simp: on_close1_def split: option.splits)

lemma reachable1_keys:
  "reachable1 s \<Longrightarrow> rooms1 s k = Some r \<Longrightarrow> k = PRANK_ROOM_CODE"
proof (induction arbitrary: k r rule: reachable1.induct)
  case start
  then show ?case by (simp add: init1_def)
next
  case (message s bad ws data)
  from on_message1_rooms [of bad ws data s k]
  have "rooms1 s k = Some r \<or> k = PRANK_ROOM_CODE"
    using message.prems by auto
  then show ?case using message.IH by blast
next
  case (close s bad ws)
  from on_close1_dom [OF close.prems] obtain r' where "rooms1 s k = Some r'" by auto
  then show ?case by (rule close.IH)
qed

section \<open>The claims\<close>

text \<open>The equations that evaluate the handlers on a concrete input.\<close>

lemmas sample_defs =
  senderInfo_def clientInfoOf_def clientWaiting_def senderWaiting_def threeClients_def
  joinMsg_def prankMsg_def getOrCreate_def

lemmas handler_defs =
  on_message_def on_close_def handleSenderJoin_def handleClientJoin_def handlePrankMessage_def
  handleDisconnection_def broadcastClientCount_def cleanUp_def getOrCreate_def send_def
  thenDo_def joinMsg_def prankMsg_def init_def Let_def splice1_def

lemma senderJoined_eval:
  "rooms (on_message {} 1 (Some (joinMsg ''sender_join'')) init) PRANK_ROOM_CODE
     = Some \<lparr>sender = Some 1, clients = []\<rparr>"
  "clientInfo (on_message {} 1 (Some (joinMsg ''sender_join'')) init) 1 = Some senderInfo"
  "clientInfo (on_message {} 1 (Some (joinMsg ''sender_join'')) init) 2 = None"
  "sent (on_message {} 1 (Some (joinMsg ''sender_join'')) init)
     = [(1, ClientCount 0), (1, WaitingForTarget)]"
  by (simp_all add: handler_defs senderInfo_def)

text \<open>
  C9. In every reachable state the registry holds at most one room, and the key of a
  room it holds is the configured secret \<open>PRANK_ROOM_CODE\<close>: both join handlers
  compare \<^verbatim>\<open>roomCode\<close> with the secret before they touch the map, and use that same
  \<^verbatim>\<open>roomCode\<close> as the key. This holds for the multi-client server and for the
  single-client variant alike.
\<close>

theorem only_the_secret_is_a_key:
  "(reachable s \<longrightarrow> dom (rooms s) \<subseteq> {PRANK_ROOM_CODE} \<and> card (dom (rooms s)) \<le> 1) \<and>
   (reachable1 s1 \<longrightarrow> dom (rooms1 s1) \<subseteq> {PRANK_ROOM_CODE} \<and> card (dom (rooms1 s1)) \<le> 1)"
proof (intro conjI impI)
  assume r: "reachable s"
  show "dom (rooms s) \<subseteq> {PRANK_ROOM_CODE}"
    using reachable_keys [OF r] by auto
  then have "card (dom (rooms s)) \<le> card {PRANK_ROOM_CODE}"
    by (intro card_mono) simp_all
  then show "card (dom (rooms s)) \<le> 1" by simp
next
  assume r: "reachable1 s1"
  show "dom (rooms1 s1) \<subseteq> {PRANK_ROOM_CODE}"
    using reachable1_keys [OF r] by auto
  then have "card (dom (rooms1 s1)) \<le> card {PRANK_ROOM_CODE}"
    by (intro card_mono) simp_all
  then show "card (dom (rooms1 s1)) \<le> 1" by simp
qed

theorem only_the_secret_is_a_key_witness:
  "reachable (on_message {} 1 (Some (joinMsg ''sender_join'')) init) \<and>
   rooms (on_message {} 1 (Some (joinMsg ''sender_join'')) init) PRANK_ROOM_CODE
     = Some \<lparr>sender = Some 1, clients = []\<rparr> \<and>
   dom (rooms (on_message {} 1 (Some (joinMsg ''sender_join'')) init)) \<subseteq> {PRANK_ROOM_CODE} \<and>
   card (dom (rooms (on_message {} 1 (Some (joinMsg ''sender_join'')) init))) \<le> 1 \<and>
   reachable1 (on_message1 {} 1 (Some (joinMsg ''sender_join'')) init1) \<and>
   rooms1 (on_message1 {} 1 (Some (joinMsg ''sender_join'')) init1) PRANK_ROOM_CODE
     = Some \<lparr>sender1 = Some 1, client1 = None\<rparr> \<and>
   dom (rooms1 (on_message1 {} 1 (Some (joinMsg ''sender_join'')) init1)) \<subseteq> {PRANK_ROOM_CODE} \<and>
   card (dom (rooms1 (on_message1 {} 1 (Some (joinMsg ''sender_join'')) init1))) \<le> 1"
proof -
  have r: "reachable (on_message {} 1 (Some (joinMsg ''sender_join'')) init)"
    by (rule reachable.message [OF reachable.start])
  have e: "rooms (on_message {} 1 (Some (joinMsg ''sender_join'')) init) PRANK_ROOM_CODE
     = Some \<lparr>sender = Some 1, clients = []\<rparr>"
    by (simp add: handler_defs)
  have r1: "reachable1 (on_message1 {} 1 (Some (joinMsg ''sender_join'')) init1)"
    by (rule reachable1.message [OF reachable1.start])
  have e1: "rooms1 (on_message1 {} 1 (Some (joinMsg ''sender_join'')) init1) PRANK_ROOM_CODE
     = Some \<lparr>sender1 = Some 1, client1 = None\<rparr>"
    by (simp add: on_message1_def handleSenderJoin1_def getOrCreate1_def send1_def init1_def
          joinMsg_def Let_def)
  note t = only_the_secret_is_a_key
    [of "on_message {} 1 (Some (joinMsg ''sender_join'')) init"
        "on_message1 {} 1 (Some (joinMsg ''sender_join'')) init1"]
  from t [THEN conjunct1, THEN mp, OF r] t [THEN conjunct2, THEN mp, OF r1] r e r1 e1
  show ?thesis by (intro conjI) blast+
qed

text \<open>
  C4. In every reachable state a room that is in the registry has a sender or at least
  one client (a room exists in the registry only, so the converse is immediate). A
  disconnection that leaves the room with neither removes the key in the same event; in
  particular the room of a sender with no clients is gone once that sender's connection
  closes.
\<close>

theorem room_exists_iff_occupied:
  assumes "reachable s"
  shows "(rooms s rc = Some room \<longrightarrow> sender room \<noteq> None \<or> clients room \<noteq> []) \<and>
         (clientInfo s ws = Some info \<and> rooms s (ci_roomCode info) = Some room0 \<and>
            sender (leave info room0) = None \<and> clients (leave info room0) = []
            \<longrightarrow> rooms (snd (on_close bad ws s)) (ci_roomCode info) = None) \<and>
         (clientInfo s ws = Some info \<and> ci_type info = Sender \<and>
            rooms s (ci_roomCode info) = Some room0 \<and> clients room0 = []
            \<longrightarrow> rooms (snd (on_close bad ws s)) (ci_roomCode info) = None)"
proof (intro conjI impI)
  assume "rooms s rc = Some room"
  then show "sender room \<noteq> None \<or> clients room \<noteq> []"
    using reachable_nonempty [OF assms] by blast
next
  assume "clientInfo s ws = Some info \<and> rooms s (ci_roomCode info) = Some room0 \<and>
            sender (leave info room0) = None \<and> clients (leave info room0) = []"
  then show "rooms (snd (on_close bad ws s)) (ci_roomCode info) = None"
    by (simp add: on_close_rooms)
next
  assume "clientInfo s ws = Some info \<and> ci_type info = Sender \<and>
            rooms s (ci_roomCode info) = Some room0 \<and> clients room0 = []"
  then show "rooms (snd (on_close bad ws s)) (ci_roomCode info) = None"
    by (simp add: on_close_rooms leave_def)
qed

theorem room_exists_iff_occupied_witness:
  "reachable (on_message {} 1 (Some (joinMsg ''sender_join'')) init) \<and>
   clientInfo (on_message {} 1 (Some (joinMsg ''sender_join'')) init) 1
     = Some \<lparr>ci_type = Sender, ci_roomCode = PRANK_ROOM_CODE, ci_ws = None\<rparr> \<and>
   rooms (on_message {} 1 (Some (joinMsg ''sender_join'')) init) PRANK_ROOM_CODE
     = Some \<lparr>sender = Some 1, clients = []\<rparr> \<and>
   rooms (snd (on_close {} 1 (on_message {} 1 (Some (joinMsg ''sender_join'')) init)))
     PRANK_ROOM_CODE = None"
proof -
  define s where "s = on_message {} 1 (Some (joinMsg ''sender_join'')) init"
  have r: "reachable s"
    unfolding s_def by (rule reachable.message [OF reachable.start])
  have c: "clientInfo s 1 = Some \<lparr>ci_type = Sender, ci_roomCode = PRANK_ROOM_CODE, ci_ws = None\<rparr>"
    unfolding s_def by (simp add: handler_defs)
  have e: "rooms s PRANK_ROOM_CODE = Some \<lparr>sender = Some 1, clients = []\<rparr>"
    unfolding s_def by (simp add: handler_defs)
  let ?i = "\<lparr>ci_type = Sender, ci_roomCode = PRANK_ROOM_CODE, ci_ws = None\<rparr>"
  have h: "clientInfo s 1 = Some ?i \<and> ci_type ?i = Sender \<and>
      rooms s (ci_roomCode ?i) = Some \<lparr>sender = Some 1, clients = []\<rparr> \<and>
      clients \<lparr>sender = Some 1, clients = []\<rparr> = []"
    using c e by simp
  have "rooms (snd (on_close {} 1 s)) (ci_roomCode ?i) = None"
    by (rule room_exists_iff_occupied [OF r, THEN conjunct2, THEN conjunct2, THEN mp, OF h])
  then have "rooms (snd (on_close {} 1 s)) PRANK_ROOM_CODE = None"
    by simp
  with r c e show ?thesis unfolding s_def by simp
qed

text \<open>
  C7. A \<^verbatim>\<open>sender_join\<close> with the right room code takes the room of the registry, or a
  new room with no sender and no clients when the registry has none, and puts this
  connection in its sender slot whatever was there (an earlier sender is neither told nor
  closed, and its \<^verbatim>\<open>clientInfo\<close> stays). It sets the connection's \<^verbatim>\<open>clientInfo\<close> to a
  sender of that room, and then sends this connection \<^verbatim>\<open>client_count\<close> with the number
  of clients followed by \<^verbatim>\<open>target_acquired\<close> when that number is positive and by
  \<^verbatim>\<open>waiting_for_target\<close> when it is zero (always so for a new room). The first send
  goes to the sender slot, which is this connection; when its \<^verbatim>\<open>send\<close> throws, nothing
  is sent.
\<close>

theorem sender_join_takes_the_room:
  assumes "field ''type'' m = Some (JStr ''sender_join'')"
    and "field ''roomCode'' m = Some (JStr PRANK_ROOM_CODE)"
  shows "on_message bad ws (Some m) s =
     (case rooms s PRANK_ROOM_CODE of
        None \<Rightarrow>
          s\<lparr>rooms := (rooms s)(PRANK_ROOM_CODE \<mapsto> \<lparr>sender = Some ws, clients = []\<rparr>),
            clientInfo := (clientInfo s)
              (ws := Some \<lparr>ci_type = Sender, ci_roomCode = PRANK_ROOM_CODE, ci_ws = None\<rparr>),
            sent :=
              (if ws \<in> bad then sent s
               else sent s @ [(ws, ClientCount 0), (ws, WaitingForTarget)])\<rparr>
      | Some room \<Rightarrow>
          s\<lparr>rooms := (rooms s)(PRANK_ROOM_CODE \<mapsto> room\<lparr>sender := Some ws\<rparr>),
            clientInfo := (clientInfo s)
              (ws := Some \<lparr>ci_type = Sender, ci_roomCode = PRANK_ROOM_CODE, ci_ws = None\<rparr>),
            sent :=
              (if ws \<in> bad then sent s
               else sent s @
                 [(ws, ClientCount (length (clients room))),
                  (ws, if 0 < length (clients room)
                       then TargetAcquiredOnline (length (clients room))
                       else WaitingForTarget)])\<rparr>)"
proof (cases "rooms s PRANK_ROOM_CODE")
  case None
  then have "getOrCreate s PRANK_ROOM_CODE = \<lparr>sender = None, clients = []\<rparr>"
    by (simp add: getOrCreate_def)
  then show ?thesis
    using None assms by (simp add: on_message_sender_join handleSenderJoin_right)
next
  case (Some room)
  then have "getOrCreate s PRANK_ROOM_CODE = room"
    by (simp add: getOrCreate_def)
  then show ?thesis
    using Some assms by (simp add: on_message_sender_join handleSenderJoin_right)
qed

theorem sender_join_takes_the_room_witness:
  "field ''type'' (joinMsg ''sender_join'') = Some (JStr ''sender_join'') \<and>
   field ''roomCode'' (joinMsg ''sender_join'') = Some (JStr PRANK_ROOM_CODE) \<and>
   rooms init PRANK_ROOM_CODE = None \<and>
   rooms (on_message {} 1 (Some (joinMsg ''sender_join'')) init) PRANK_ROOM_CODE
     = Some \<lparr>sender = Some 1, clients = []\<rparr> \<and>
   clientInfo (on_message {} 1 (Some (joinMsg ''sender_join'')) init) 1 = Some senderInfo \<and>
   sent (on_message {} 1 (Some (joinMsg ''sender_join'')) init)
     = [(1, ClientCount 0), (1, WaitingForTarget)] \<and>
   rooms clientWaiting PRANK_ROOM_CODE = Some \<lparr>sender = None, clients = [2]\<rparr> \<and>
   rooms (on_message {} 1 (Some (joinMsg ''sender_join'')) clientWaiting) PRANK_ROOM_CODE
     = Some \<lparr>sender = Some 1, clients = [2]\<rparr> \<and>
   clientInfo (on_message {} 1 (Some (joinMsg ''sender_join'')) clientWaiting) 1
     = Some senderInfo \<and>
   sent (on_message {} 1 (Some (joinMsg ''sender_join'')) clientWaiting)
     = [(1, ClientCount 1), (1, TargetAcquiredOnline 1)] \<and>
   rooms threeClients PRANK_ROOM_CODE = Some \<lparr>sender = Some 1, clients = [2, 3, 4]\<rparr> \<and>
   rooms (on_message {} 5 (Some (joinMsg ''sender_join'')) threeClients) PRANK_ROOM_CODE
     = Some \<lparr>sender = Some 5, clients = [2, 3, 4]\<rparr> \<and>
   clientInfo (on_message {} 5 (Some (joinMsg ''sender_join'')) threeClients) 5
     = Some senderInfo \<and>
   clientInfo (on_message {} 5 (Some (joinMsg ''sender_join'')) threeClients) 1
     = Some senderInfo \<and>
   sent (on_message {} 5 (Some (joinMsg ''sender_join'')) threeClients)
     = [(5, ClientCount 3), (5, TargetAcquiredOnline 3)] \<and>
   sent (on_message {5} 5 (Some (joinMsg ''sender_join'')) threeClients) = []"
proof -
  have t: "field ''type'' (joinMsg ''sender_join'') = Some (JStr ''sender_join'')"
    by (simp add: joinMsg_def)
  have c: "field ''roomCode'' (joinMsg ''sender_join'') = Some (JStr PRANK_ROOM_CODE)"
    by (simp add: joinMsg_def)
  have r0: "rooms init PRANK_ROOM_CODE = None"
    by (simp add: init_def)
  have r1: "rooms clientWaiting PRANK_ROOM_CODE = Some \<lparr>sender = None, clients = [2]\<rparr>"
    by (simp add: clientWaiting_def)
  have r3: "rooms threeClients PRANK_ROOM_CODE = Some \<lparr>sender = Some 1, clients = [2, 3, 4]\<rparr>"
    by (simp add: threeClients_def)
  show ?thesis
    unfolding sender_join_takes_the_room [OF t c] r0 r1 r3
    using t c by (simp add: init_def clientWaiting_def threeClients_def senderInfo_def)
qed

text \<open>
  C5. A join (of either kind) whose room code is not the secret, a \<^verbatim>\<open>prank_message\<close>
  on a connection that is not a sender, and a \<^verbatim>\<open>prank_message\<close> of a sender whose
  room is absent or has no clients: each does nothing but send one \<^verbatim>\<open>error\<close> message
  to the connection the message came on. The rooms and every \<^verbatim>\<open>clientInfo\<close> are as
  before (when that one \<^verbatim>\<open>send\<close> throws, the whole state is as before). No handler
  has an action that closes a connection.
\<close>

theorem rejection_only_answers_error:
  shows "((field ''type'' m = Some (JStr ''sender_join'') \<or>
           field ''type'' m = Some (JStr ''client_join'')) \<and>
          field ''roomCode'' m \<noteq> Some (JStr PRANK_ROOM_CODE) \<longrightarrow>
          on_message bad ws (Some m) s =
            (if ws \<in> bad then s
             else s\<lparr>sent := sent s @ [(ws, ErrorMsg ''Invalid room code'')]\<rparr>)) \<and>
         (field ''type'' m = Some (JStr ''prank_message'') \<and>
          (\<forall>info. clientInfo s ws = Some info \<longrightarrow> ci_type info \<noteq> Sender) \<longrightarrow>
          on_message bad ws (Some m) s =
            (if ws \<in> bad then s
             else s\<lparr>sent := sent s @ [(ws, ErrorMsg ''Only senders can send prank messages'')]\<rparr>)) \<and>
         (field ''type'' m = Some (JStr ''prank_message'') \<and>
          clientInfo s ws = Some info \<and> ci_type info = Sender \<and>
          (\<forall>room. rooms s (ci_roomCode info) = Some room \<longrightarrow> clients room = []) \<longrightarrow>
          on_message bad ws (Some m) s =
            (if ws \<in> bad then s
             else s\<lparr>sent := sent s @ [(ws, ErrorMsg ''No targets connected'')]\<rparr>))"
proof (intro conjI impI)
  assume a: "(field ''type'' m = Some (JStr ''sender_join'') \<or>
           field ''type'' m = Some (JStr ''client_join'')) \<and>
          field ''roomCode'' m \<noteq> Some (JStr PRANK_ROOM_CODE)"
  then consider "field ''type'' m = Some (JStr ''sender_join'')"
    | "field ''type'' m = Some (JStr ''client_join'')" by blast
  then show "on_message bad ws (Some m) s =
            (if ws \<in> bad then s
             else s\<lparr>sent := sent s @ [(ws, ErrorMsg ''Invalid room code'')]\<rparr>)"
  proof cases
    case 1
    moreover from a have "field ''roomCode'' m \<noteq> Some (JStr PRANK_ROOM_CODE)" by blast
    ultimately show ?thesis
      by (simp add: on_message_sender_join handleSenderJoin_wrong snd_send)
  next
    case 2
    moreover from a have "field ''roomCode'' m \<noteq> Some (JStr PRANK_ROOM_CODE)" by blast
    ultimately show ?thesis
      by (simp add: on_message_client_join handleClientJoin_wrong snd_send)
  qed
next
  assume "field ''type'' m = Some (JStr ''prank_message'') \<and>
          (\<forall>info. clientInfo s ws = Some info \<longrightarrow> ci_type info \<noteq> Sender)"
  then have "field ''type'' m = Some (JStr ''prank_message'')"
    and "\<forall>info. clientInfo s ws = Some info \<longrightarrow> ci_type info \<noteq> Sender"
    by blast+
  then show "on_message bad ws (Some m) s =
            (if ws \<in> bad then s
             else s\<lparr>sent := sent s @ [(ws, ErrorMsg ''Only senders can send prank messages'')]\<rparr>)"
    by (simp add: on_message_prank_message handlePrankMessage_wrong_role snd_send)
next
  assume "field ''type'' m = Some (JStr ''prank_message'') \<and>
          clientInfo s ws = Some info \<and> ci_type info = Sender \<and>
          (\<forall>room. rooms s (ci_roomCode info) = Some room \<longrightarrow> clients room = [])"
  then have "field ''type'' m = Some (JStr ''prank_message'')"
    and "handlePrankMessage bad ws m s = send bad ws (ErrorMsg ''No targets connected'') s"
    using handlePrankMessage_no_targets [of s ws info bad m] by blast+
  then show "on_message bad ws (Some m) s =
            (if ws \<in> bad then s
             else s\<lparr>sent := sent s @ [(ws, ErrorMsg ''No targets connected'')]\<rparr>)"
    by (simp add: on_message_prank_message snd_send)
qed

theorem rejection_only_answers_error_witness:
  "field ''type'' (JObj [(''type'', JStr ''client_join''), (''roomCode'', JStr ''guess'')])
     = Some (JStr ''client_join'') \<and>
   field ''roomCode'' (JObj [(''type'', JStr ''client_join''), (''roomCode'', JStr ''guess'')])
     \<noteq> Some (JStr PRANK_ROOM_CODE) \<and>
   on_message {} 2 (Some (JObj [(''type'', JStr ''client_join''), (''roomCode'', JStr ''guess'')]))
       senderWaiting
     = senderWaiting\<lparr>sent := [(2, ErrorMsg ''Invalid room code'')]\<rparr> \<and>
   field ''type'' (prankMsg (JStr ''X'')) = Some (JStr ''prank_message'') \<and>
   clientInfo clientWaiting 2 = Some (clientInfoOf 2) \<and>
   ci_type (clientInfoOf 2) \<noteq> Sender \<and>
   on_message {} 2 (Some (prankMsg (JStr ''X''))) clientWaiting
     = clientWaiting\<lparr>sent := [(2, ErrorMsg ''Only senders can send prank messages'')]\<rparr> \<and>
   clientInfo senderWaiting 1 = Some senderInfo \<and>
   ci_type senderInfo = Sender \<and>
   rooms senderWaiting (ci_roomCode senderInfo) = Some \<lparr>sender = Some 1, clients = []\<rparr> \<and>
   on_message {} 1 (Some (prankMsg (JStr ''X''))) senderWaiting
     = senderWaiting\<lparr>sent := [(1, ErrorMsg ''No targets connected'')]\<rparr>"
proof -
  let ?j = "JObj [(''type'', JStr ''client_join''), (''roomCode'', JStr ''guess'')]"
  have j: "(field ''type'' ?j = Some (JStr ''sender_join'') \<or>
            field ''type'' ?j = Some (JStr ''client_join'')) \<and>
           field ''roomCode'' ?j \<noteq> Some (JStr PRANK_ROOM_CODE)"
    by (simp add: PRANK_ROOM_CODE_def)
  have 1: "on_message {} 2 (Some ?j) senderWaiting
     = senderWaiting\<lparr>sent := [(2, ErrorMsg ''Invalid room code'')]\<rparr>"
    using rejection_only_answers_error
      [of ?j "{}" 2 senderWaiting, THEN conjunct1, THEN mp, OF j]
    by (simp add: senderWaiting_def)
  have p: "field ''type'' (prankMsg (JStr ''X'')) = Some (JStr ''prank_message'')"
    by (simp add: prankMsg_def)
  have ci2: "clientInfo clientWaiting 2 = Some (clientInfoOf 2)"
    by (simp add: clientWaiting_def)
  have ty2: "ci_type (clientInfoOf 2) \<noteq> Sender"
    by (simp add: clientInfoOf_def)
  have r: "field ''type'' (prankMsg (JStr ''X'')) = Some (JStr ''prank_message'') \<and>
      (\<forall>info. clientInfo clientWaiting 2 = Some info \<longrightarrow> ci_type info \<noteq> Sender)"
    using p ci2 ty2 by simp
  have 2: "on_message {} 2 (Some (prankMsg (JStr ''X''))) clientWaiting
     = clientWaiting\<lparr>sent := [(2, ErrorMsg ''Only senders can send prank messages'')]\<rparr>"
    using rejection_only_answers_error
      [of "prankMsg (JStr ''X'')" "{}" 2 clientWaiting, THEN conjunct2, THEN conjunct1, THEN mp, OF r]
    by (simp add: clientWaiting_def)
  have ci1: "clientInfo senderWaiting 1 = Some senderInfo"
    by (simp add: senderWaiting_def)
  have ty1: "ci_type senderInfo = Sender"
    by (simp add: senderInfo_def)
  have ro: "rooms senderWaiting (ci_roomCode senderInfo) = Some \<lparr>sender = Some 1, clients = []\<rparr>"
    by (simp add: senderWaiting_def senderInfo_def)
  have n: "field ''type'' (prankMsg (JStr ''X'')) = Some (JStr ''prank_message'') \<and>
      clientInfo senderWaiting 1 = Some senderInfo \<and> ci_type senderInfo = Sender \<and>
      (\<forall>room. rooms senderWaiting (ci_roomCode senderInfo) = Some room \<longrightarrow> clients room = [])"
    using p ci1 ty1 ro by auto
  have 3: "on_message {} 1 (Some (prankMsg (JStr ''X''))) senderWaiting
     = senderWaiting\<lparr>sent := [(1, ErrorMsg ''No targets connected'')]\<rparr>"
    using rejection_only_answers_error
      [of "prankMsg (JStr ''X'')" "{}" 1 senderWaiting senderInfo,
        THEN conjunct2, THEN conjunct2, THEN mp, OF n]
    by (simp add: senderWaiting_def)
  show ?thesis
    using j 1 p ci2 ty2 2 ci1 ty1 ro 3 by simp
qed

text \<open>
  C10. A \<^verbatim>\<open>prank_message\<close> of a sender whose room has a client, with the property
  \<^verbatim>\<open>payload\<close> absent or \<^verbatim>\<open>null\<close>: \<^verbatim>\<open>handlePrankMessage\<close> throws before any send,
  and the event leaves the state as it was: nothing is sent to any client, and the
  sender gets neither an error nor a receipt.
\<close>

theorem prank_without_payload_is_dropped:
  assumes "field ''type'' m = Some (JStr ''prank_message'')"
    and "clientInfo s ws = Some info" and "ci_type info = Sender"
    and "rooms s (ci_roomCode info) = Some room" and "clients room \<noteq> []"
    and "field ''payload'' m = None \<or> field ''payload'' m = Some JNull"
  shows "handlePrankMessage bad ws m s = (Threw, s) \<and> on_message bad ws (Some m) s = s"
  using assms(1) handlePrankMessage_no_payload [OF assms(2-6), of bad]
  by (simp add: on_message_prank_message)

theorem prank_without_payload_is_dropped_witness:
  "field ''type'' (JObj [(''type'', JStr ''prank_message'')]) = Some (JStr ''prank_message'') \<and>
   clientInfo threeClients 1 = Some senderInfo \<and> ci_type senderInfo = Sender \<and>
   rooms threeClients (ci_roomCode senderInfo) = Some \<lparr>sender = Some 1, clients = [2, 3, 4]\<rparr> \<and>
   clients \<lparr>sender = Some 1, clients = [2, 3, 4]\<rparr> \<noteq> [] \<and>
   field ''payload'' (JObj [(''type'', JStr ''prank_message'')]) = None \<and>
   handlePrankMessage {} 1 (JObj [(''type'', JStr ''prank_message'')]) threeClients
     = (Threw, threeClients) \<and>
   on_message {} 1 (Some (JObj [(''type'', JStr ''prank_message'')])) threeClients = threeClients"
proof -
  let ?m = "JObj [(''type'', JStr ''prank_message'')]"
  have t: "field ''type'' ?m = Some (JStr ''prank_message'')" by simp
  have ci: "clientInfo threeClients 1 = Some senderInfo"
    by (simp add: threeClients_def)
  have ty: "ci_type senderInfo = Sender"
    by (simp add: senderInfo_def)
  have ro: "rooms threeClients (ci_roomCode senderInfo)
      = Some \<lparr>sender = Some 1, clients = [2, 3, 4]\<rparr>"
    by (simp add: threeClients_def senderInfo_def)
  have ne: "clients \<lparr>sender = Some 1, clients = [2, 3, 4]\<rparr> \<noteq> []" by simp
  have pl: "field ''payload'' ?m = None \<or> field ''payload'' ?m = Some JNull" by simp
  show ?thesis
    using t ci ty ro prank_without_payload_is_dropped [OF t ci ty ro ne pl, of "{}"] by simp
qed

text \<open>
  C3. A \<^verbatim>\<open>prank_message\<close> that reaches the fan-out (its payload is there, not \<^verbatim>\<open>null\<close>,
  and the line that logs \<^verbatim>\<open>payload.type\<close> does not throw), from a sender whose own
  socket works and whose room has \<open>N\<close> clients of which exactly one has a \<^verbatim>\<open>send\<close> that
  throws: the other \<open>N - 1\<close> clients get the payload, in the order of \<^verbatim>\<open>clients\<close>, and
  then the sender gets the receipt with \<open>N - 1\<close> delivered of \<open>N\<close>, the length of
  \<^verbatim>\<open>clients\<close> when the loop began. Nothing else changes.
\<close>

theorem one_failed_send_of_n:
  assumes "field ''type'' m = Some (JStr ''prank_message'')"
    and "clientInfo s ws = Some info" and "ci_type info = Sender"
    and "rooms s (ci_roomCode info) = Some room"
    and "field ''payload'' m = Some p" and "p \<noteq> JNull" and "toStringOk (field ''type'' p)"
    and "length (filter (\<lambda>c. c \<in> bad) (clients room)) = 1" and "ws \<notin> bad"
  shows "on_message bad ws (Some m) s =
           s\<lparr>sent := sent s @
               map (\<lambda>c. (c, PrankMessage p)) (filter (\<lambda>c. c \<notin> bad) (clients room)) @
               [(ws, PrankDelivered (length (clients room) - 1) (length (clients room)))]\<rparr> \<and>
         length (filter (\<lambda>c. c \<notin> bad) (clients room)) = length (clients room) - 1"
proof -
  have ne: "clients room \<noteq> []"
    using assms(8) by auto
  have n: "length (filter (\<lambda>c. c \<notin> bad) (clients room)) = length (clients room) - 1"
    using assms(8) by (simp add: filter_bad_length)
  have "on_message bad ws (Some m) s = snd (handlePrankMessage bad ws m s)"
    using assms(1) by (rule on_message_prank_message)
  also have "\<dots> = snd (send bad ws
       (PrankDelivered (length (clients room) - 1) (length (clients room)))
       (s\<lparr>sent := sent s @
           map (\<lambda>c. (c, PrankMessage p)) (filter (\<lambda>c. c \<notin> bad) (clients room))\<rparr>))"
    using handlePrankMessage_relay [OF assms(2-4) ne assms(5-7), of bad] n by simp
  also have "\<dots> = s\<lparr>sent := sent s @
               map (\<lambda>c. (c, PrankMessage p)) (filter (\<lambda>c. c \<notin> bad) (clients room)) @
               [(ws, PrankDelivered (length (clients room) - 1) (length (clients room)))]\<rparr>"
    using assms(9) by (simp add: send_def)
  finally show ?thesis using n by simp
qed

theorem one_failed_send_of_n_witness:
  "field ''type'' (prankMsg (JObj [(''type'', JStr ''X'')])) = Some (JStr ''prank_message'') \<and>
   clientInfo threeClients 1 = Some senderInfo \<and> ci_type senderInfo = Sender \<and>
   rooms threeClients (ci_roomCode senderInfo) = Some \<lparr>sender = Some 1, clients = [2, 3, 4]\<rparr> \<and>
   field ''payload'' (prankMsg (JObj [(''type'', JStr ''X'')]))
     = Some (JObj [(''type'', JStr ''X'')]) \<and>
   toStringOk (field ''type'' (JObj [(''type'', JStr ''X'')])) \<and>
   length (filter (\<lambda>c. c \<in> {3}) (clients \<lparr>sender = Some 1, clients = [2, 3, 4]\<rparr>)) = 1 \<and>
   on_message {3} 1 (Some (prankMsg (JObj [(''type'', JStr ''X'')]))) threeClients
     = threeClients\<lparr>sent := [(2, PrankMessage (JObj [(''type'', JStr ''X'')])),
                               (4, PrankMessage (JObj [(''type'', JStr ''X'')])),
                               (1, PrankDelivered 2 3)]\<rparr> \<and>
   \<not> toStringOk (field ''type'' (JObj [(''type'', JObj [(''toString'', JNum 0)])])) \<and>
   on_message {3} 1 (Some (prankMsg (JObj [(''type'', JObj [(''toString'', JNum 0)])])))
       threeClients = threeClients"
proof -
  let ?p = "JObj [(''type'', JStr ''X'')]"
  have t: "field ''type'' (prankMsg ?p) = Some (JStr ''prank_message'')"
    by (simp add: prankMsg_def)
  have ci: "clientInfo threeClients 1 = Some senderInfo"
    by (simp add: threeClients_def)
  have ty: "ci_type senderInfo = Sender"
    by (simp add: senderInfo_def)
  have ro: "rooms threeClients (ci_roomCode senderInfo)
      = Some \<lparr>sender = Some 1, clients = [2, 3, 4]\<rparr>"
    by (simp add: threeClients_def senderInfo_def)
  have pl: "field ''payload'' (prankMsg ?p) = Some ?p"
    by (simp add: prankMsg_def)
  have nn: "?p \<noteq> JNull" by simp
  have lg: "toStringOk (field ''type'' ?p)"
    by (simp add: toStringOk_def)
  have one: "length (filter (\<lambda>c. c \<in> {3}) (clients \<lparr>sender = Some 1, clients = [2, 3, 4::nat]\<rparr>)) = 1"
    by simp
  have ok: "(1::nat) \<notin> {3}" by simp
  have "on_message {3} 1 (Some (prankMsg ?p)) threeClients
     = threeClients\<lparr>sent := [(2, PrankMessage ?p), (4, PrankMessage ?p),
                               (1, PrankDelivered 2 3)]\<rparr>"
    using one_failed_send_of_n [OF t ci ty ro pl nn lg one ok, THEN conjunct1]
    by (simp add: threeClients_def)
  moreover have "\<not> toStringOk (field ''type'' (JObj [(''type'', JObj [(''toString'', JNum 0)])]))"
    by (simp add: toStringOk_def)
  moreover have "on_message {3} 1
      (Some (prankMsg (JObj [(''type'', JObj [(''toString'', JNum 0)])]))) threeClients
      = threeClients"
    using handlePrankMessage_log_throws [OF ci ty ro, of
        "prankMsg (JObj [(''type'', JObj [(''toString'', JNum 0)])])"
        "JObj [(''type'', JObj [(''toString'', JNum 0)])]" "{3}"]
    by (simp add: on_message_prank_message prankMsg_fields toStringOk_def)
  ultimately show ?thesis
    using t ci ty ro pl lg one by simp
qed

text \<open>
  C8. When the connection of a client closes, the first element of \<^verbatim>\<open>clients\<close> that is
  this handle is removed, found by comparing handles and not by a stored position: the
  other handles stay, in their order, and the list is one shorter when the handle was in
  it. Then the sender, when there is one and its socket works, is sent \<^verbatim>\<open>client_count\<close>
  with the new length, followed by \<^verbatim>\<open>target_update\<close> when that length is positive and
  by \<^verbatim>\<open>target_lost\<close> when it is zero. A room left with no sender and no client is
  removed.
\<close>

theorem client_close_removes_that_handle:
  assumes "clientInfo s ws = Some info" and "ci_type info = Client" and "ci_ws info = Some ws"
    and "rooms s (ci_roomCode info) = Some room"
    and "\<forall>c. sender room = Some c \<longrightarrow> c \<notin> bad"
  shows "on_close bad ws s =
     (Returned,
      s\<lparr>rooms :=
          (if sender room = None \<and> remove1 ws (clients room) = []
           then (rooms s)(ci_roomCode info := None)
           else (rooms s)(ci_roomCode info \<mapsto> room\<lparr>clients := remove1 ws (clients room)\<rparr>)),
        sent := sent s @
          (case sender room of
             None \<Rightarrow> []
           | Some c \<Rightarrow>
               [(c, ClientCount (length (remove1 ws (clients room)))),
                (c, if 0 < length (remove1 ws (clients room))
                    then TargetUpdate (length (remove1 ws (clients room)))
                    else TargetLost)])\<rparr>) \<and>
     filter (\<lambda>c. c \<noteq> ws) (remove1 ws (clients room)) = filter (\<lambda>c. c \<noteq> ws) (clients room) \<and>
     (ws \<in> set (clients room) \<longrightarrow>
        Suc (length (remove1 ws (clients room))) = length (clients room)) \<and>
     (\<forall>xs ys. clients room = xs @ ws # ys \<and> ws \<notin> set xs \<longrightarrow>
        remove1 ws (clients room) = xs @ ys)"
proof -
  have a: "on_close bad ws s = handleDisconnection bad info s"
    using assms(1) by (simp add: on_close_def)
  have b: "filter (\<lambda>c. c \<noteq> ws) (remove1 ws (clients room)) = filter (\<lambda>c. c \<noteq> ws) (clients room)"
    by (rule filter_remove1_others)
  have c: "ws \<in> set (clients room) \<longrightarrow>
      Suc (length (remove1 ws (clients room))) = length (clients room)"
    using length_pos_if_in_set [of ws "clients room"] by (simp add: length_remove1)
  have d: "\<forall>xs ys. clients room = xs @ ws # ys \<and> ws \<notin> set xs \<longrightarrow>
      remove1 ws (clients room) = xs @ ys"
    by (simp add: remove1_append)
  show ?thesis
    unfolding a handleDisconnection_client [OF assms(2-5)]
    by (rule conjI [OF refl conjI [OF b conjI [OF c d]]])
qed

theorem client_close_removes_that_handle_witness:
  "clientInfo threeClients 3 = Some (clientInfoOf 3) \<and>
   ci_type (clientInfoOf 3) = Client \<and> ci_ws (clientInfoOf 3) = Some 3 \<and>
   rooms threeClients (ci_roomCode (clientInfoOf 3))
     = Some \<lparr>sender = Some 1, clients = [2, 3, 4]\<rparr> \<and>
   rooms (snd (on_close {} 3 threeClients)) PRANK_ROOM_CODE
     = Some \<lparr>sender = Some 1, clients = [2, 4]\<rparr> \<and>
   sent (snd (on_close {} 3 threeClients)) = [(1, ClientCount 2), (1, TargetUpdate 2)]"
proof -
  have ci: "clientInfo threeClients 3 = Some (clientInfoOf 3)"
    by (simp add: threeClients_def)
  have ty: "ci_type (clientInfoOf 3) = Client"
    by (simp add: clientInfoOf_def)
  have w: "ci_ws (clientInfoOf 3) = Some 3"
    by (simp add: clientInfoOf_def)
  have ro: "rooms threeClients (ci_roomCode (clientInfoOf 3))
      = Some \<lparr>sender = Some 1, clients = [2, 3, 4]\<rparr>"
    by (simp add: threeClients_def clientInfoOf_def)
  have ok: "\<forall>c. sender \<lparr>sender = Some (1::nat), clients = [2, 3, 4]\<rparr> = Some c \<longrightarrow> c \<notin> {}"
    by simp
  show ?thesis
    unfolding client_close_removes_that_handle [OF ci ty w ro ok, THEN conjunct1]
    using ci ty w ro by (simp add: threeClients_def clientInfoOf_def)
qed



text \<open>
  C2, as stated, fails: nothing stops a connection from joining again. After two
  \<^verbatim>\<open>client_join\<close> messages on connection 1 the handle stands twice in \<^verbatim>\<open>clients\<close>;
  after a \<^verbatim>\<open>sender_join\<close> and a \<^verbatim>\<open>client_join\<close> on connection 1 the handle is the
  sender and a client of the room at once.
\<close>

theorem rejoin_binds_the_handle_twice:
  "reachable (on_message {} 1 (Some (joinMsg ''client_join''))
     (on_message {} 1 (Some (joinMsg ''client_join'')) init)) \<and>
   rooms (on_message {} 1 (Some (joinMsg ''client_join''))
     (on_message {} 1 (Some (joinMsg ''client_join'')) init)) PRANK_ROOM_CODE
     = Some \<lparr>sender = None, clients = [1, 1]\<rparr> \<and>
   occurs 1 \<lparr>sender = None, clients = [1, 1]\<rparr> = 2 \<and>
   reachable (on_message {} 1 (Some (joinMsg ''client_join''))
     (on_message {} 1 (Some (joinMsg ''sender_join'')) init)) \<and>
   rooms (on_message {} 1 (Some (joinMsg ''client_join''))
     (on_message {} 1 (Some (joinMsg ''sender_join'')) init)) PRANK_ROOM_CODE
     = Some \<lparr>sender = Some 1, clients = [1]\<rparr> \<and>
   occurs 1 \<lparr>sender = Some 1, clients = [1]\<rparr> = 2"
proof -
  have "reachable (on_message {} 1 (Some (joinMsg ''client_join''))
     (on_message {} 1 (Some (joinMsg ''client_join'')) init))"
    by (intro reachable.message reachable.start)
  moreover have "rooms (on_message {} 1 (Some (joinMsg ''client_join''))
     (on_message {} 1 (Some (joinMsg ''client_join'')) init)) PRANK_ROOM_CODE
     = Some \<lparr>sender = None, clients = [1, 1]\<rparr>"
    by (simp add: handler_defs)
  moreover have "occurs 1 \<lparr>sender = None, clients = [1, 1]\<rparr> = 2"
    by (simp add: occurs_def)
  moreover have "reachable (on_message {} 1 (Some (joinMsg ''client_join''))
     (on_message {} 1 (Some (joinMsg ''sender_join'')) init))"
    by (intro reachable.message reachable.start)
  moreover have "rooms (on_message {} 1 (Some (joinMsg ''client_join''))
     (on_message {} 1 (Some (joinMsg ''sender_join'')) init)) PRANK_ROOM_CODE
     = Some \<lparr>sender = Some 1, clients = [1]\<rparr>"
    by (simp add: handler_defs)
  moreover have "occurs 1 \<lparr>sender = Some 1, clients = [1]\<rparr> = 2"
    by (simp add: occurs_def)
  ultimately show ?thesis by (intro conjI)
qed

text \<open>
  C2, amended. In every state reached when no connection delivers a join message after
  its \<^verbatim>\<open>clientInfo\<close> was set, a handle stands at most once in a room (sender slot and
  \<^verbatim>\<open>clients\<close> taken together), and in at most one room.
\<close>

theorem handle_bound_once_when_joined_once:
  assumes "reachableJoinOnce s"
  shows "(rooms s rc = Some room \<longrightarrow> occurs h room \<le> 1) \<and>
         (rooms s rc = Some room \<and> 0 < occurs h room \<and>
          rooms s rc' = Some room' \<and> 0 < occurs h room' \<longrightarrow> rc = rc')"
proof (intro conjI impI)
  assume r: "rooms s rc = Some room"
  from joinOnce_inv [OF assms r]
  have d: "distinct (clients room)" and n: "\<forall>h. sender room = Some h \<longrightarrow> h \<notin> set (clients room)"
    by blast+
  show "occurs h room \<le> 1"
  proof (cases "sender room = Some h")
    case True
    then have "count_list (clients room) h = 0"
      using n by (simp add: count_list_0_iff)
    then show ?thesis using True by (simp add: occurs_def)
  next
    case False
    then show ?thesis
      using distinct_count_list [OF d, of h] by (simp add: occurs_def)
  qed
next
  assume "rooms s rc = Some room \<and> 0 < occurs h room \<and>
          rooms s rc' = Some room' \<and> 0 < occurs h room'"
  then have "rooms s rc = Some room" and "rooms s rc' = Some room'" by blast+
  then show "rc = rc'"
    using reachable_keys [OF reachableJoinOnce_reachable [OF assms]] by blast
qed

theorem handle_bound_once_when_joined_once_witness:
  "reachableJoinOnce (on_message {} 2 (Some (joinMsg ''client_join''))
     (on_message {} 1 (Some (joinMsg ''sender_join'')) init)) \<and>
   rooms (on_message {} 2 (Some (joinMsg ''client_join''))
     (on_message {} 1 (Some (joinMsg ''sender_join'')) init)) PRANK_ROOM_CODE
     = Some \<lparr>sender = Some 1, clients = [2]\<rparr> \<and>
   occurs 1 \<lparr>sender = Some 1, clients = [2]\<rparr> \<le> 1 \<and>
   occurs 2 \<lparr>sender = Some 1, clients = [2]\<rparr> \<le> 1 \<and>
   occurs 1 \<lparr>sender = Some 1, clients = [2]\<rparr> = 1 \<and>
   occurs 2 \<lparr>sender = Some 1, clients = [2]\<rparr> = 1"
proof -
  let ?s1 = "on_message {} 1 (Some (joinMsg ''sender_join'')) init"
  let ?s2 = "on_message {} 2 (Some (joinMsg ''client_join'')) ?s1"
  have r1: "reachableJoinOnce ?s1"
    by (rule reachableJoinOnce.message1 [OF reachableJoinOnce.start1]) (simp add: init_def)
  have r2: "reachableJoinOnce ?s2"
    using senderJoined_eval(3) by (intro reachableJoinOnce.message1 [OF r1] impI)
  have e: "rooms ?s2 PRANK_ROOM_CODE = Some \<lparr>sender = Some 1, clients = [2]\<rparr>"
    by (simp add: handler_defs)
  note t = handle_bound_once_when_joined_once [OF r2, THEN conjunct1, THEN mp, OF e]
  have "occurs 1 \<lparr>sender = Some 1, clients = [2]\<rparr> = 1"
    and "occurs 2 \<lparr>sender = Some 1, clients = [2]\<rparr> = 1"
    by (simp_all add: occurs_def)
  with r2 e t [of 1] t [of 2] show ?thesis by (intro conjI)
qed




end
